theory Spec2Isabelle
  imports Main "HOL-Library.Word"
begin

unbundle bit_operations_syntax

section \<open>Machine integers and bit fields\<close>

text \<open>
  The driver computes with \<open>u16\<close>, \<open>u32\<close> and \<open>size_t\<close> (64 bits on the arm64
  targets of this driver).  Values are natural numbers; each place where the C
  arithmetic is done at a fixed width is wrapped in the matching truncation.
\<close>

definition u8 :: "nat \<Rightarrow> nat" where
  "u8 x = x mod 2 ^ 8"

definition u16 :: "nat \<Rightarrow> nat" where
  "u16 x = x mod 2 ^ 16"

definition u32 :: "nat \<Rightarrow> nat" where
  "u32 x = x mod 2 ^ 32"

definition usize :: "nat \<Rightarrow> nat" where
  "usize x = x mod 2 ^ 64"

text \<open>\<open>a - b\<close> on \<open>size_t\<close>: wraps below zero.\<close>

definition usize_sub :: "nat \<Rightarrow> nat \<Rightarrow> nat" where
  "usize_sub a b = (a + 2 ^ 64 - b mod 2 ^ 64) mod 2 ^ 64"

text \<open>\<open>FIELD_GET(GENMASK(hi, lo), v)\<close> and \<open>FIELD_PREP(GENMASK(hi, lo), v)\<close> on a 64-bit word.\<close>

definition FIELD_GET :: "nat \<Rightarrow> nat \<Rightarrow> nat \<Rightarrow> nat" where
  "FIELD_GET hi lo v = (v div 2 ^ lo) mod 2 ^ (hi + 1 - lo)"

definition FIELD_PREP :: "nat \<Rightarrow> nat \<Rightarrow> nat \<Rightarrow> nat" where
  "FIELD_PREP hi lo v = (v mod 2 ^ (hi + 1 - lo)) * 2 ^ lo"

definition BLOCK_SHIFT :: nat where
  "BLOCK_SHIFT = 6"

text \<open>\<open>ALIGN(x, 1 << BLOCK_SHIFT)\<close> evaluated at the type \<open>u32\<close> of \<open>x\<close>.\<close>

definition ALIGN_u32 :: "nat \<Rightarrow> nat" where
  "ALIGN_u32 x = (u32 (x + (2 ^ BLOCK_SHIFT - 1)) div 2 ^ BLOCK_SHIFT) * 2 ^ BLOCK_SHIFT"

text \<open>The same macro evaluated at \<open>size_t\<close>.\<close>

definition ALIGN_usize :: "nat \<Rightarrow> nat" where
  "ALIGN_usize x = (usize (x + (2 ^ BLOCK_SHIFT - 1)) div 2 ^ BLOCK_SHIFT) * 2 ^ BLOCK_SHIFT"

text \<open>The control-message types of \<open>enum rbep_msg_type\<close> that the functions below send.\<close>

definition RBEP_GETBUF_ACK :: nat where "RBEP_GETBUF_ACK = 0xa1"
definition RBEP_START :: nat where "RBEP_START = 0xa3"
definition RBEP_SEND :: nat where "RBEP_SEND = 0xa2"

section \<open>Shared memory\<close>

text \<open>
  Memory is a map from addresses to bytes.  Pointers are addresses, so a store
  through a pointer that leaves its buffer is visible in the model as a store to
  the address it really hits.
\<close>

type_synonym byte = "8 word"
type_synonym memory = "nat \<Rightarrow> byte"

fun store_bytes :: "nat \<Rightarrow> byte list \<Rightarrow> memory \<Rightarrow> memory" where
  "store_bytes a [] m = m"
| "store_bytes a (b # bs) m = store_bytes (Suc a) bs (m(a := b))"

definition load_bytes :: "nat \<Rightarrow> nat \<Rightarrow> memory \<Rightarrow> byte list" where
  "load_bytes a n m = map m [a ..< a + n]"

text \<open>Little-endian images of integers: \<open>cpu_to_leNN\<close> followed by a store of \<open>n\<close> bytes.\<close>

fun le_bytes :: "nat \<Rightarrow> nat \<Rightarrow> byte list" where
  "le_bytes 0 v = []"
| "le_bytes (Suc n) v = of_nat (v mod 256) # le_bytes n (v div 256)"

fun le_val :: "byte list \<Rightarrow> nat" where
  "le_val [] = 0"
| "le_val (b # bs) = unat b + 256 * le_val bs"

definition put_le :: "nat \<Rightarrow> nat \<Rightarrow> nat \<Rightarrow> memory \<Rightarrow> memory" where
  "put_le n a v m = store_bytes a (le_bytes n v) m"

definition get_le :: "nat \<Rightarrow> nat \<Rightarrow> memory \<Rightarrow> nat" where
  "get_le n a m = le_val (load_bytes a n m)"

section \<open>Declarations of afk.h\<close>

text \<open>
  The functions below include \<open>afk.h\<close>, which declares the constants, the
  enumerations and the layouts of the wire structures.  What they use of it is
  collected in one record, which every function takes as its first argument, so
  that each result holds for every header a build could supply.  A structure
  field is its byte offset and its width in bytes.
\<close>

type_synonym field = "nat \<times> nat"

record afk_h =
  QE_MAGIC_IOP :: nat
  QE_MAGIC_AOP :: nat
  EPIC_TYPE_COMMAND :: nat
  EPIC_CAT_COMMAND :: nat
  EPIC_CAT_REPLY :: nat
  MAX_PENDING_CMDS :: nat
  AFK_MAX_CHANNEL :: nat
  sizeof_epic_hdr :: nat
  ehdr_version :: field
  ehdr_seq :: field
  ehdr_timestamp :: field
  sizeof_epic_sub_hdr :: nat
  eshdr_length :: field
  eshdr_version :: field
  eshdr_category :: field
  eshdr_type :: field
  eshdr_timestamp :: field
  eshdr_tag :: field
  eshdr_inline_len :: field
  sizeof_epic_cmd :: nat
  cmd_retcode :: field
  cmd_rxbuf :: field
  cmd_rxlen :: field
  cmd_txbuf :: field
  cmd_txlen :: field

definition field_in :: "field \<Rightarrow> nat \<Rightarrow> bool" where
  "field_in f n \<longleftrightarrow> fst f + snd f \<le> n"

text \<open>
  Every field written by \<open>afk_send_epic\<close> lies inside its structure, the
  inline-length field holds the 16 bits stored into it, and the magic is a 32-bit
  value.
\<close>

definition layout_ok :: "afk_h \<Rightarrow> bool" where
  "layout_ok h \<longleftrightarrow>
     field_in (ehdr_version h) (sizeof_epic_hdr h) \<and>
     field_in (ehdr_seq h) (sizeof_epic_hdr h) \<and>
     field_in (ehdr_timestamp h) (sizeof_epic_hdr h) \<and>
     field_in (eshdr_length h) (sizeof_epic_sub_hdr h) \<and>
     field_in (eshdr_version h) (sizeof_epic_sub_hdr h) \<and>
     field_in (eshdr_category h) (sizeof_epic_sub_hdr h) \<and>
     field_in (eshdr_type h) (sizeof_epic_sub_hdr h) \<and>
     field_in (eshdr_timestamp h) (sizeof_epic_sub_hdr h) \<and>
     field_in (eshdr_tag h) (sizeof_epic_sub_hdr h) \<and>
     field_in (eshdr_inline_len h) (sizeof_epic_sub_hdr h) \<and>
     2 \<le> snd (eshdr_inline_len h) \<and>
     QE_MAGIC_IOP h < 2 ^ 32"



text \<open>\<open>p->f = v\<close> and \<open>p->f\<close> for a little-endian field \<open>f\<close> of the structure at \<open>p\<close>.\<close>

definition put_field :: "field \<Rightarrow> nat \<Rightarrow> nat \<Rightarrow> memory \<Rightarrow> memory" where
  "put_field f p v m = put_le (snd f) (p + fst f) v m"

definition get_field :: "field \<Rightarrow> nat \<Rightarrow> memory \<Rightarrow> nat" where
  "get_field f p m = get_le (snd f) (p + fst f) m"

text \<open>
  Modelled from the spec: \<open>struct afk_qe\<close> is declared in \<open>afk.h\<close>.  Section 6
  gives the ring entry bit-exactly: magic, size, channel and type, 32 bits each,
  followed by \<open>size\<close> bytes of data.
\<close>

definition sizeof_afk_qe :: nat where
  "sizeof_afk_qe = 16"

definition qe_magic :: field where "qe_magic = (0, 4)"
definition qe_size :: field where "qe_size = (4, 4)"
definition qe_channel :: field where "qe_channel = (8, 4)"
definition qe_type :: field where "qe_type = (12, 4)"

section \<open>Data model\<close>

datatype error = ENOMEM | ENOSPC | ETIMEDOUT

text \<open>
  \<open>struct afk_ringbuffer\<close>: \<open>hdr\<close> is the address of the three header blocks,
  \<open>buf\<close> the address of the body.
\<close>

record afk_ringbuffer =
  ready :: bool
  hdr :: nat
  blksz :: nat
  buf :: nat
  bufsz :: nat

text \<open>
  One slot of \<open>service->cmds[]\<close>.  Pointers are addresses, \<open>0\<close> is \<open>NULL\<close>;
  \<open>completion\<close> is \<open>None\<close> when the pointer is \<open>NULL\<close>.
\<close>

record epic_cmd_slot =
  tag :: nat
  rxbuf :: nat
  txbuf :: nat
  rxbuf_dma :: nat
  txbuf_dma :: nat
  rxlen :: nat
  txlen :: nat
  free_on_ack :: bool
  cmd_done :: bool
  completion :: "nat option"
  retcode :: nat

text \<open>
  \<open>struct apple_epic_service\<close>.  \<open>ops\<close> is the name of the matched entry of the
  endpoint's ops table; \<open>cmd_map\<close> is the bitmap of allocated tag slots and
  \<open>released\<close> lists the slots handed to \<open>bitmap_release_region\<close>, in order.
\<close>

record apple_epic_service =
  enabled :: bool
  ops :: "byte list"
  channel :: nat
  cmd_tag :: nat
  cmd_map :: "nat \<Rightarrow> bool"
  released :: "nat list"
  cmds :: "nat \<Rightarrow> epic_cmd_slot"

text \<open>
  \<open>struct apple_dcp_afkep\<close> together with the part of the world the functions act
  on: the memory, the messages handed to \<open>apple_rtkit_send_message\<close> (\<open>sent\<close>),
  the sizes requested from the DMA allocator (\<open>dma_allocs\<close>), the buffers handed
  to \<open>dma_free_coherent\<close> (\<open>dma_frees\<close>) and the completions signalled with
  \<open>complete\<close> (\<open>completed\<close>).  \<open>bfr\<close> is \<open>None\<close> when the staging pointer is
  \<open>NULL\<close>.  \<open>ops_table\<close> is \<open>ep->ops\<close>: the names of the entries of the
  endpoint's service table, \<open>None\<close> when the pointer is \<open>NULL\<close>.
\<close>

record apple_dcp_afkep =
  bfr :: "nat option"
  bfr_size :: nat
  bfr_tag :: nat
  bfr_dma :: nat
  rxbfr :: afk_ringbuffer
  txbfr :: afk_ringbuffer
  qe_seq :: nat
  num_channels :: nat
  services :: "nat \<Rightarrow> apple_epic_service"
  ops_table :: "byte list list option"
  mem :: memory
  sent :: "nat list"
  dma_allocs :: "nat list"
  dma_frees :: "nat list"
  completed :: "nat list"

definition ptr_of :: "nat option \<Rightarrow> nat" where
  "ptr_of p = (case p of None \<Rightarrow> 0 | Some a \<Rightarrow> a)"

section \<open>Buffer negotiation\<close>

definition afk_send :: "apple_dcp_afkep \<Rightarrow> nat \<Rightarrow> apple_dcp_afkep" where
  "afk_send ep message = ep\<lparr>sent := sent ep @ [message]\<rparr>"

text \<open>
  \<open>afk_getbuf\<close>.  The allocator is the environment: \<open>alloc size\<close> is what
  \<open>dmam_alloc_coherent\<close> returns for this request, \<open>None\<close> for \<open>NULL\<close>, otherwise
  the CPU address and the device address.
\<close>

definition afk_getbuf ::
  "(nat \<Rightarrow> (nat \<times> nat) option) \<Rightarrow> apple_dcp_afkep \<Rightarrow> nat \<Rightarrow> apple_dcp_afkep" where
  "afk_getbuf alloc ep message =
    (let size = u32 (FIELD_GET 31 16 message * 2 ^ BLOCK_SHIFT);
         tg = u16 (FIELD_GET 15 0 message)
     in if bfr ep \<noteq> None then ep
        else
          (case alloc size of
             None \<Rightarrow> ep\<lparr>dma_allocs := dma_allocs ep @ [size]\<rparr>
           | Some (p, dva) \<Rightarrow>
               (let ep1 = ep\<lparr>dma_allocs := dma_allocs ep @ [size],
                              bfr := Some p, bfr_dma := dva,
                              bfr_size := size, bfr_tag := tg\<rparr>;
                    reply = FIELD_PREP 63 48 RBEP_GETBUF_ACK OR FIELD_PREP 47 0 (bfr_dma ep1)
                in afk_send ep1 reply)))"

text \<open>The four accessors of the read and write pointer blocks.\<close>

definition afk_rb_get_rptr :: "memory \<Rightarrow> afk_ringbuffer \<Rightarrow> nat" where
  "afk_rb_get_rptr m b = get_le 4 (hdr b + blksz b * 1) m"

definition afk_rb_get_wptr :: "memory \<Rightarrow> afk_ringbuffer \<Rightarrow> nat" where
  "afk_rb_get_wptr m b = get_le 4 (hdr b + blksz b * 2) m"

definition afk_rb_set_rptr :: "afk_ringbuffer \<Rightarrow> nat \<Rightarrow> memory \<Rightarrow> memory" where
  "afk_rb_set_rptr b rptr m = put_le 4 (hdr b + blksz b * 1) rptr m"

definition afk_rb_set_wptr :: "afk_ringbuffer \<Rightarrow> nat \<Rightarrow> memory \<Rightarrow> memory" where
  "afk_rb_set_wptr b wptr m = put_le 4 (hdr b + blksz b * 2) wptr m"

text \<open>
  \<open>afk_init_rxtx\<close> is called with \<open>&ep->txbfr\<close> for INIT_TX and \<open>&ep->rxbfr\<close> for
  INIT_RX; \<open>which\<close> says which of the two the pointer \<open>bfr\<close> is.
\<close>

datatype which = TX | RX

fun get_bfr :: "which \<Rightarrow> apple_dcp_afkep \<Rightarrow> afk_ringbuffer" where
  "get_bfr TX ep = txbfr ep"
| "get_bfr RX ep = rxbfr ep"

fun set_bfr :: "which \<Rightarrow> afk_ringbuffer \<Rightarrow> apple_dcp_afkep \<Rightarrow> apple_dcp_afkep" where
  "set_bfr TX b ep = ep\<lparr>txbfr := b\<rparr>"
| "set_bfr RX b ep = ep\<lparr>rxbfr := b\<rparr>"

text \<open>The three locals that \<open>afk_init_rxtx\<close> takes from the message.\<close>

definition initrb_base :: "nat \<Rightarrow> nat" where
  "initrb_base message = u32 (FIELD_GET 47 32 message * 2 ^ BLOCK_SHIFT)"

definition initrb_size :: "nat \<Rightarrow> nat" where
  "initrb_size message = u32 (FIELD_GET 31 16 message * 2 ^ BLOCK_SHIFT)"

definition initrb_tag :: "nat \<Rightarrow> nat" where
  "initrb_tag message = u16 (FIELD_GET 15 0 message)"

definition afk_init_rxtx :: "apple_dcp_afkep \<Rightarrow> nat \<Rightarrow> which \<Rightarrow> apple_dcp_afkep" where
  "afk_init_rxtx ep message w =
    (let base = initrb_base message;
         size = initrb_size message;
         tg = initrb_tag message
     in if tg \<noteq> bfr_tag ep then ep
        else if ready (get_bfr w ep) then ep
        else if base \<ge> bfr_size ep then ep
        else
          (let end = u32 (base + size)
           in if end > bfr_size ep then ep
              else
                (let ep1 = set_bfr w ((get_bfr w ep)\<lparr>hdr := ptr_of (bfr ep) + base\<rparr>) ep;
                     b = get_bfr w ep1;
                     bufsz' = get_le 4 (hdr b) (mem ep1)
                 in if size \<le> bufsz' then ep1
                    else
                      (let hdrsz = size - bufsz'
                       in if hdrsz mod 3 \<noteq> 0 then ep1
                          else
                            (let blksz' = hdrsz div 3
                             in if blksz' < 2 ^ BLOCK_SHIFT \<or> blksz' mod 2 ^ BLOCK_SHIFT \<noteq> 0
                                then ep1
                                else
                                  (let ep2 = set_bfr w
                                         (b\<lparr>buf := hdr b + hdrsz, bufsz := bufsz',
                                            blksz := blksz', ready := True\<rparr>) ep1
                                   in if ready (rxbfr ep2) \<and> ready (txbfr ep2)
                                      then afk_send ep2 (FIELD_PREP 63 48 RBEP_START)
                                      else ep2))))))"

section \<open>Service registry\<close>

text \<open>
  \<open>afk_epic_find_service\<close>: the first index below \<open>num_channels\<close> whose service is
  enabled on the channel; \<open>None\<close> for \<open>NULL\<close>.
\<close>

definition afk_epic_find_service :: "apple_dcp_afkep \<Rightarrow> nat \<Rightarrow> nat option" where
  "afk_epic_find_service ep ch =
     find (\<lambda>i. enabled (services ep i) \<and> channel (services ep i) = ch) [0 ..< num_channels ep]"

text \<open>
  \<open>afk_match_service\<close>: names are C strings without their terminator; the table
  ends at its first entry with an empty name.
\<close>

definition afk_match_service :: "apple_dcp_afkep \<Rightarrow> byte list \<Rightarrow> byte list option" where
  "afk_match_service ep name =
     (if name = [] then None
      else
        (case ops_table ep of
           None \<Rightarrow> None
         | Some tbl \<Rightarrow> find (\<lambda>n. n = name) (takeWhile (\<lambda>n. n \<noteq> []) tbl)))"

text \<open>The C string that starts at the first byte of a buffer.\<close>

definition c_string :: "byte list \<Rightarrow> byte list" where
  "c_string bs = takeWhile (\<lambda>b. b \<noteq> 0) bs"

text \<open>
  \<open>struct aop_epic_service_init\<close>: \<open>name[16]\<close>, then seven \<open>u32\<close>, of which
  \<open>channel\<close> is the fifth; \<open>sizeof\<close> is \<open>0x2c\<close>.
\<close>

definition sizeof_aop_epic_service_init :: nat where
  "sizeof_aop_epic_service_init = 0x2c"

definition prop_name :: "byte list \<Rightarrow> byte list" where
  "prop_name payload = c_string payload"

definition prop_channel :: "byte list \<Rightarrow> nat" where
  "prop_channel payload = le_val (take 4 (drop 32 payload))"

text \<open>
  \<open>apple_aop_recv_handle_init\<close>.  The two \<open>WARN_ON\<close> on the subtype and on the
  payload size, and the third, \<open>WARN_ON(afk_epic_find_service(ep, prop->channel))\<close>,
  print a warning and have no other effect; the wire channel \<open>ch\<close> is not used.
\<close>

definition apple_aop_recv_handle_init ::
  "afk_h \<Rightarrow> apple_dcp_afkep \<Rightarrow> nat \<Rightarrow> nat \<Rightarrow> byte list \<Rightarrow> apple_dcp_afkep" where
  "apple_aop_recv_handle_init h ep subtype ch payload =
    (if length payload < sizeof_aop_epic_service_init then ep
     else if num_channels ep \<ge> AFK_MAX_CHANNEL h then ep
     else
       (case afk_match_service ep (prop_name payload) of
          None \<Rightarrow> ep
        | Some o' \<Rightarrow>
            (let ch_idx = num_channels ep
             in ep\<lparr>num_channels := ch_idx + 1,
                   services := (services ep)
                     (ch_idx := (services ep ch_idx)
                        \<lparr>enabled := True, ops := o',
                         channel := prop_channel payload, cmd_tag := 0\<rparr>)\<rparr>)))"

section \<open>Reply matching\<close>

definition upd_service ::
  "nat \<Rightarrow> (apple_epic_service \<Rightarrow> apple_epic_service) \<Rightarrow> apple_dcp_afkep \<Rightarrow> apple_dcp_afkep" where
  "upd_service si f ep = ep\<lparr>services := (services ep)(si := f (services ep si))\<rparr>"

definition upd_cmd ::
  "nat \<Rightarrow> (epic_cmd_slot \<Rightarrow> epic_cmd_slot) \<Rightarrow> apple_epic_service \<Rightarrow> apple_epic_service" where
  "upd_cmd idx f s = s\<lparr>cmds := (cmds s)(idx := f (cmds s idx))\<rparr>"

definition bitmap_release_region :: "nat \<Rightarrow> apple_epic_service \<Rightarrow> apple_epic_service" where
  "bitmap_release_region idx s =
     s\<lparr>cmd_map := (cmd_map s)(idx := False), released := released s @ [idx]\<rparr>"

definition dma_free_coherent :: "nat \<Rightarrow> apple_dcp_afkep \<Rightarrow> apple_dcp_afkep" where
  "dma_free_coherent p ep = ep\<lparr>dma_frees := dma_frees ep @ [p]\<rparr>"

definition complete :: "nat option \<Rightarrow> apple_dcp_afkep \<Rightarrow> apple_dcp_afkep" where
  "complete c ep = (case c of None \<Rightarrow> ep | Some a \<Rightarrow> ep\<lparr>completed := completed ep @ [a]\<rparr>)"

text \<open>
  \<open>afk_recv_handle_reply\<close>.  The section between \<open>spin_lock_irqsave\<close> and
  \<open>spin_unlock_irqrestore\<close> is one step; the two \<open>dma_free_coherent\<close> follow it.
\<close>

definition afk_recv_handle_reply ::
  "afk_h \<Rightarrow> apple_dcp_afkep \<Rightarrow> nat \<Rightarrow> nat \<Rightarrow> byte list \<Rightarrow> apple_dcp_afkep" where
  "afk_recv_handle_reply h ep ch tg payload =
    (let idx = tg mod 256
     in case afk_epic_find_service ep ch of
          None \<Rightarrow> ep
        | Some si \<Rightarrow>
            if length payload < sizeof_epic_cmd h then ep
            else if idx \<ge> MAX_PENDING_CMDS h then ep
            else if cmd_done (cmds (services ep si) idx) then ep
            else if tg \<noteq> tag (cmds (services ep si) idx) then ep
            else
              (let rc = le_val (take (snd (cmd_retcode h)) (drop (fst (cmd_retcode h)) payload));
                   ep1 = upd_service si
                           (upd_cmd idx (\<lambda>c. c\<lparr>cmd_done := True, retcode := u32 rc\<rparr>)) ep;
                   c = cmds (services ep1 si) idx;
                   foa = free_on_ack c;
                   rxb = (if foa then rxbuf c else 0);
                   txb = (if foa then txbuf c else 0);
                   rxl = (if foa then rxlen c else 0);
                   txl = (if foa then txlen c else 0);
                   ep2 = (if foa then upd_service si (bitmap_release_region idx) ep1 else ep1);
                   ep3 = complete (completion c) ep2;
                   ep4 = (if rxb \<noteq> 0 \<and> rxl \<noteq> 0 then dma_free_coherent rxb ep3 else ep3)
               in if txb \<noteq> 0 \<and> txl \<noteq> 0 then dma_free_coherent txb ep4 else ep4))"

section \<open>Sending\<close>

text \<open>
  The placement part of \<open>afk_send_epic\<close>: the \<open>if (wptr < rptr) ... else ...\<close>
  statement.  The result is \<open>-ENOMEM\<close>, or the offsets of \<open>hdr\<close> and \<open>hdr2\<close> in
  the body (\<open>None\<close> for \<open>hdr2 == NULL\<close>) and the value of \<open>wptr\<close> after it.
  \<open>wptr\<close> is a \<open>u32\<close>; the comparisons are made at \<open>size_t\<close>.
\<close>

definition afk_send_epic_place ::
  "nat \<Rightarrow> nat \<Rightarrow> nat \<Rightarrow> nat \<Rightarrow> nat \<Rightarrow> error + (nat \<times> nat option \<times> nat)" where
  "afk_send_epic_place bsz rptr wptr total_epic_size total_size =
    (if wptr < rptr then
       (if usize (wptr + total_size) > rptr then Inl ENOMEM
        else Inr (wptr, None, u32 (wptr + sizeof_afk_qe)))
     else
       (if usize (wptr + sizeof_afk_qe) > bsz then Inl ENOMEM
        else if usize (wptr + total_size) > bsz then
          (if sizeof_afk_qe > rptr then Inl ENOMEM
           else if usize (sizeof_afk_qe + total_epic_size) > rptr then Inl ENOMEM
           else Inr (wptr, Some 0, sizeof_afk_qe))
        else Inr (wptr, None, u32 (wptr + sizeof_afk_qe))))"

text \<open>The four stores into \<open>*hdr\<close>.\<close>

definition write_qe :: "nat \<Rightarrow> nat \<Rightarrow> nat \<Rightarrow> nat \<Rightarrow> nat \<Rightarrow> memory \<Rightarrow> memory" where
  "write_qe p magic sz ch ty m =
     put_field qe_type p ty (put_field qe_channel p ch
       (put_field qe_size p sz (put_field qe_magic p magic m)))"

text \<open>\<open>memset\<close> of \<open>*ehdr\<close> and the stores into it.\<close>

definition write_ehdr :: "afk_h \<Rightarrow> nat \<Rightarrow> nat \<Rightarrow> memory \<Rightarrow> memory" where
  "write_ehdr h p seq m =
     put_field (ehdr_timestamp h) p 0 (put_field (ehdr_seq h) p (u16 seq)
       (put_field (ehdr_version h) p 2
         (store_bytes p (replicate (sizeof_epic_hdr h) 0) m)))"

text \<open>
  \<open>memset\<close> of \<open>*eshdr\<close> and the stores into it.  \<open>payload_len - 4\<close> is a
  \<open>size_t\<close> difference and \<open>cpu_to_le16\<close> keeps its low 16 bits.
\<close>

definition write_eshdr :: "afk_h \<Rightarrow> nat \<Rightarrow> nat \<Rightarrow> nat \<Rightarrow> nat \<Rightarrow> nat \<Rightarrow> memory \<Rightarrow> memory" where
  "write_eshdr h p payload_len ecat stype tg m =
     put_field (eshdr_inline_len h) p
         (if ecat = EPIC_CAT_REPLY h then u16 (usize_sub payload_len 4) else u16 0)
       (put_field (eshdr_tag h) p (u16 tg)
         (put_field (eshdr_timestamp h) p 0
           (put_field (eshdr_type h) p (u16 (u8 stype))
             (put_field (eshdr_category h) p ecat
               (put_field (eshdr_version h) p 4
                 (put_field (eshdr_length h) p (u32 payload_len)
                   (store_bytes p (replicate (sizeof_epic_sub_hdr h) 0) m)))))))"



text \<open>
  The locals \<open>total_epic_size\<close> and \<open>total_size\<close> of \<open>afk_send_epic\<close>, and the
  placement it computes from the pointers it reads from the TX ring.
\<close>

definition total_epic_size :: "afk_h \<Rightarrow> nat \<Rightarrow> nat" where
  "total_epic_size h payload_len = usize (sizeof_epic_hdr h + sizeof_epic_sub_hdr h + payload_len)"

definition total_size :: "afk_h \<Rightarrow> nat \<Rightarrow> nat" where
  "total_size h payload_len = usize (sizeof_afk_qe + total_epic_size h payload_len)"

definition afk_send_epic_layout ::
  "afk_h \<Rightarrow> apple_dcp_afkep \<Rightarrow> nat \<Rightarrow> error + (nat \<times> nat option \<times> nat)" where
  "afk_send_epic_layout h ep payload_len =
     afk_send_epic_place (bufsz (txbfr ep))
       (afk_rb_get_rptr (mem ep) (txbfr ep)) (afk_rb_get_wptr (mem ep) (txbfr ep))
       (total_epic_size h payload_len) (total_size h payload_len)"

text \<open>
  \<open>afk_send_epic\<close>.  \<open>payload\<close> is the \<open>payload_len\<close> bytes at the pointer.  The
  result is the return value and the endpoint after the call.

  Modelled from the spec: the type of \<open>qe_seq\<close> is declared in \<open>afk.h\<close>; section
  4.3 says that the sequence counter wraps at 16 bits.
\<close>

definition afk_send_epic ::
  "afk_h \<Rightarrow> apple_dcp_afkep \<Rightarrow> nat \<Rightarrow> nat \<Rightarrow> nat \<Rightarrow> nat \<Rightarrow> nat \<Rightarrow> byte list
     \<Rightarrow> (error + unit) \<times> apple_dcp_afkep" where
  "afk_send_epic h ep ch tg etype ecat stype payload =
    (let tx = txbfr ep;
         payload_len = length payload
     in case afk_send_epic_layout h ep payload_len of
          Inl e \<Rightarrow> (Inl e, ep)
        | Inr (hdr_off, hdr2, wptr1) \<Rightarrow>
            (let m1 = write_qe (buf tx + hdr_off) (QE_MAGIC_IOP h)
                        (u32 (total_epic_size h payload_len)) (u32 ch) (u32 etype) (mem ep);
                 m2 = (case hdr2 of
                         None \<Rightarrow> m1
                       | Some o2 \<Rightarrow>
                           store_bytes (buf tx + o2)
                             (load_bytes (buf tx + hdr_off) sizeof_afk_qe m1) m1);
                 m3 = write_ehdr h (buf tx + wptr1) (qe_seq ep) m2;
                 wptr2 = u32 (wptr1 + sizeof_epic_hdr h);
                 m4 = write_eshdr h (buf tx + wptr2) payload_len ecat stype tg m3;
                 wptr3 = u32 (wptr2 + sizeof_epic_sub_hdr h);
                 m5 = store_bytes (buf tx + wptr3) payload m4;
                 wptr4 = u32 (wptr3 + payload_len);
                 wptr5 = ALIGN_u32 wptr4;
                 wptr6 = (if wptr5 = bufsz tx then 0 else wptr5);
                 m6 = afk_rb_set_wptr tx wptr6 m5
             in (Inr (),
                 afk_send (ep\<lparr>mem := m6, qe_seq := u16 (qe_seq ep + 1)\<rparr>)
                   (FIELD_PREP 63 48 RBEP_SEND OR FIELD_PREP 31 0 wptr6))))"

section \<open>Receiving\<close>

text \<open>
  \<open>afk_recv\<close> from \<open>dma_rmb()\<close> on: the entry at offset \<open>rptr\<close> of the RX body
  is decoded, the read pointer is advanced and published, and the entry is
  handed to \<open>afk_recv_handle\<close>.  The result is \<open>None\<close> where the function returns
  \<open>false\<close>, otherwise the arguments of that call: channel, type, the address
  \<open>hdr->data\<close> and the size.
\<close>

definition afk_recv_entry ::
  "afk_h \<Rightarrow> apple_dcp_afkep \<Rightarrow> nat \<Rightarrow> (nat \<times> nat \<times> nat \<times> nat) option \<times> apple_dcp_afkep" where
  "afk_recv_entry h ep rptr =
    (let rx = rxbfr ep;
         magic = get_field qe_magic (buf rx + rptr) (mem ep);
         size = get_field qe_size (buf rx + rptr) (mem ep)
     in if magic \<noteq> QE_MAGIC_IOP h \<and> magic \<noteq> QE_MAGIC_AOP h then (None, ep)
        else
          (let wrap = (u32 (rptr + size) + sizeof_afk_qe > bufsz rx);
               rptr1 = (if wrap then 0 else rptr);
               magic1 = get_field qe_magic (buf rx + rptr1) (mem ep);
               size1 = get_field qe_size (buf rx + rptr1) (mem ep)
           in if wrap \<and> magic1 \<noteq> QE_MAGIC_IOP h \<and> magic1 \<noteq> QE_MAGIC_AOP h then (None, ep)
              else
                (let ep1 = (if wrap then ep\<lparr>mem := afk_rb_set_rptr rx rptr1 (mem ep)\<rparr> else ep)
                 in if u32 (rptr1 + size1) + sizeof_afk_qe > bufsz rx then (None, ep1)
                    else
                      (let ch = get_field qe_channel (buf rx + rptr1) (mem ep1);
                           ty = get_field qe_type (buf rx + rptr1) (mem ep1);
                           rptr2 = u32 (ALIGN_usize (rptr1 + sizeof_afk_qe + size1));
                           rptr3 = (if rptr2 > bufsz rx then 0 else rptr2);
                           rptr4 = (if rptr3 = bufsz rx then 0 else rptr3);
                           ep2 = ep1\<lparr>mem := afk_rb_set_rptr rx rptr4 (mem ep1)\<rparr>
                       in (Some (ch, ty, buf rx + rptr1 + sizeof_afk_qe, size1), ep2)))))"

definition afk_recv ::
  "afk_h \<Rightarrow> apple_dcp_afkep \<Rightarrow> (nat \<times> nat \<times> nat \<times> nat) option \<times> apple_dcp_afkep" where
  "afk_recv h ep =
    (if \<not> ready (rxbfr ep) then (None, ep)
     else
       (let rptr = afk_rb_get_rptr (mem ep) (rxbfr ep);
            wptr = afk_rb_get_wptr (mem ep) (rxbfr ep)
        in if rptr = wptr then (None, ep)
           else if rptr > usize_sub (bufsz (rxbfr ep)) sizeof_afk_qe then (None, ep)
           else afk_recv_entry h ep rptr))"

text \<open>
  The first statements of \<open>afk_recv_handle\<close>: the payload that follows the two
  EPIC headers in \<open>data\<close>; \<open>None\<close> where the function returns because the data
  is too small.
\<close>

definition afk_recv_handle_payload :: "afk_h \<Rightarrow> memory \<Rightarrow> nat \<Rightarrow> nat \<Rightarrow> byte list option" where
  "afk_recv_handle_payload h m data data_size =
    (if data_size < usize (sizeof_epic_hdr h + sizeof_epic_sub_hdr h) then None
     else Some (load_bytes (data + sizeof_epic_hdr h + sizeof_epic_sub_hdr h)
                  (data_size - sizeof_epic_hdr h - sizeof_epic_sub_hdr h) m))"

section \<open>Synchronous commands\<close>

text \<open>
  \<open>bitmap_find_free_region(map, n, 0)\<close>: the lowest clear bit below \<open>n\<close>, which
  the caller then owns; \<open>None\<close> for the negative return value.
\<close>

definition bitmap_find_free_region :: "(nat \<Rightarrow> bool) \<Rightarrow> nat \<Rightarrow> nat option" where
  "bitmap_find_free_region bm n = find (\<lambda>i. \<not> bm i) [0 ..< n]"

text \<open>The image of the local \<open>struct epic_cmd cmd\<close> after \<open>memset\<close> and the five stores.\<close>

definition epic_cmd_bytes :: "afk_h \<Rightarrow> nat \<Rightarrow> nat \<Rightarrow> nat \<Rightarrow> nat \<Rightarrow> byte list" where
  "epic_cmd_bytes h rxd output_len txd payload_len =
     load_bytes 0 (sizeof_epic_cmd h)
       (put_field (cmd_txlen h) 0 (u32 payload_len)
         (put_field (cmd_txbuf h) 0 txd
           (put_field (cmd_rxlen h) 0 (u32 output_len)
             (put_field (cmd_rxbuf h) 0 rxd
               (put_field (cmd_retcode h) 0 0 (\<lambda>_. 0))))))"

text \<open>The locals of \<open>afk_send_command\<close> that live across the wait.\<close>

record send_command_locals =
  l_idx :: nat
  l_tag :: nat
  l_rxbuf :: nat
  l_txbuf :: nat

text \<open>
  \<open>afk_send_command\<close> up to the call of \<open>wait_for_completion_timeout\<close>.
  \<open>si\<close> is the index of \<open>service\<close> in \<open>ep->services\<close>, \<open>compl\<close> the address of
  the on-stack completion, and \<open>rx_alloc\<close> and \<open>tx_alloc\<close> are what the two calls
  of \<open>dma_alloc_coherent\<close> return.  The result is the error with which the
  function returns, or the locals with which it starts to wait.
\<close>

definition afk_send_command_submit ::
  "afk_h \<Rightarrow> apple_dcp_afkep \<Rightarrow> nat \<Rightarrow> nat \<Rightarrow> byte list \<Rightarrow> nat \<Rightarrow> nat
     \<Rightarrow> (nat \<times> nat) option \<Rightarrow> (nat \<times> nat) option
     \<Rightarrow> (error + send_command_locals) \<times> apple_dcp_afkep" where
  "afk_send_command_submit h ep si type payload output_len compl rx_alloc tx_alloc =
    (let payload_len = length payload;
         ep0 = ep\<lparr>dma_allocs := dma_allocs ep @ [output_len]\<rparr>
     in case rx_alloc of
          None \<Rightarrow> (Inl ENOMEM, ep0)
        | Some (rxb, rxd) \<Rightarrow>
            (let ep1 = ep0\<lparr>dma_allocs := dma_allocs ep0 @ [payload_len]\<rparr>
             in case tx_alloc of
                  None \<Rightarrow> (Inl ENOMEM, dma_free_coherent rxb ep1)
                | Some (txb, txd) \<Rightarrow>
                    (let ep2 = ep1\<lparr>mem := store_bytes txb payload (mem ep1)\<rparr>;
                         cmd = epic_cmd_bytes h rxd output_len txd payload_len;
                         s = services ep2 si
                     in case bitmap_find_free_region (cmd_map s) (MAX_PENDING_CMDS h) of
                          None \<Rightarrow>
                            (Inl ENOSPC, dma_free_coherent rxb (dma_free_coherent txb ep2))
                        | Some idx \<Rightarrow>
                            (let tg = u16 ((cmd_tag s mod 256) * 256) OR (idx mod 256);
                                 ep3 = upd_service si
                                   (\<lambda>s. upd_cmd idx
                                      (\<lambda>c. c\<lparr>tag := tg, rxbuf := rxb, txbuf := txb,
                                             rxbuf_dma := rxd, txbuf_dma := txd,
                                             rxlen := output_len, txlen := payload_len,
                                             free_on_ack := False, cmd_done := False,
                                             completion := Some compl\<rparr>)
                                      (s\<lparr>cmd_map := (cmd_map s)(idx := True),
                                         cmd_tag := cmd_tag s + 1\<rparr>)) ep2
                             in case afk_send_epic h ep3 (channel s) tg (EPIC_TYPE_COMMAND h)
                                       (EPIC_CAT_COMMAND h) type cmd of
                                  (Inl e, ep4) \<Rightarrow>
                                    (Inl e,
                                     dma_free_coherent rxb (dma_free_coherent txb
                                       (upd_service si (bitmap_release_region idx) ep4)))
                                | (Inr _, ep4) \<Rightarrow>
                                    (Inr \<lparr>l_idx = idx, l_tag = tg, l_rxbuf = rxb, l_txbuf = txb\<rparr>,
                                     ep4)))))"

text \<open>
  \<open>afk_send_command\<close> from the return of \<open>wait_for_completion_timeout\<close> on;
  \<open>wait_ret\<close> is the value it returned.  On success the result is the return
  code of the command and the bytes copied to \<open>output\<close>.
\<close>

definition afk_send_command_wakeup ::
  "apple_dcp_afkep \<Rightarrow> nat \<Rightarrow> send_command_locals \<Rightarrow> int \<Rightarrow> nat
     \<Rightarrow> (error + (nat \<times> byte list)) \<times> apple_dcp_afkep" where
  "afk_send_command_wakeup ep si l wait_ret output_len =
    (if wait_ret \<le> 0 \<and> \<not> cmd_done (cmds (services ep si) (l_idx l)) then
       (Inl ETIMEDOUT,
        upd_service si
          (upd_cmd (l_idx l) (\<lambda>c. c\<lparr>completion := None, free_on_ack := True\<rparr>)) ep)
     else
       (let rc = retcode (cmds (services ep si) (l_idx l));
            out = load_bytes (l_rxbuf l) output_len (mem ep)
        in (Inr (rc, out),
            dma_free_coherent (l_rxbuf l) (dma_free_coherent (l_txbuf l)
              (upd_service si (bitmap_release_region (l_idx l)) ep)))))"

text \<open>
  \<open>afk_send_command\<close>.  While the caller waits, the endpoint's work queue runs;
  \<open>worker\<close> is what it does to the endpoint between the submission and the
  moment the caller takes the service lock again.
\<close>

definition afk_send_command ::
  "afk_h \<Rightarrow> apple_dcp_afkep \<Rightarrow> nat \<Rightarrow> nat \<Rightarrow> byte list \<Rightarrow> nat \<Rightarrow> nat
     \<Rightarrow> (nat \<times> nat) option \<Rightarrow> (nat \<times> nat) option
     \<Rightarrow> (apple_dcp_afkep \<Rightarrow> apple_dcp_afkep) \<Rightarrow> int
     \<Rightarrow> (error + (nat \<times> byte list)) \<times> apple_dcp_afkep" where
  "afk_send_command h ep si type payload output_len compl rx_alloc tx_alloc worker wait_ret =
    (case afk_send_command_submit h ep si type payload output_len compl rx_alloc tx_alloc of
       (Inl e, ep1) \<Rightarrow> (Inl e, ep1)
     | (Inr l, ep1) \<Rightarrow> afk_send_command_wakeup (worker ep1) si l wait_ret output_len)"

section \<open>Ring states and frames\<close>

text \<open>
  The geometry that \<open>afk_init_rxtx\<close> gives a ring: three header blocks of
  \<open>blksz\<close> bytes, a positive multiple of \<open>0x40\<close>, then the body, whose size is a
  multiple of \<open>0x40\<close> below \<open>2 ^ 22\<close>.
\<close>

definition ring_ok :: "afk_ringbuffer \<Rightarrow> bool" where
  "ring_ok b \<longleftrightarrow>
     buf b = hdr b + 3 * blksz b \<and> 2 ^ BLOCK_SHIFT \<le> blksz b \<and>
     blksz b mod 2 ^ BLOCK_SHIFT = 0 \<and> bufsz b mod 2 ^ BLOCK_SHIFT = 0 \<and> bufsz b < 2 ^ 22"

text \<open>
  The body offsets that hold entries the peer has not read yet: from the read
  pointer up to the write pointer, around the end of the body when the write
  pointer has wrapped.
\<close>

definition reserved :: "nat \<Rightarrow> nat \<Rightarrow> nat \<Rightarrow> nat set" where
  "reserved rptr wptr bsz =
     (if rptr \<le> wptr then {rptr ..< wptr} else {rptr ..< bsz} \<union> {0 ..< wptr})"

text \<open>
  The body offsets of a frame placed by \<open>afk_send_epic_place\<close>: the queue-entry
  header at \<open>hdr\<close>, its copy at \<open>hdr2\<close>, and \<open>n\<close> bytes of envelope (both EPIC
  headers and the payload) from \<open>wptr\<close> on.
\<close>

definition frame_bytes :: "nat \<times> nat option \<times> nat \<Rightarrow> nat \<Rightarrow> nat set" where
  "frame_bytes p n =
     (case p of (hdr_off, hdr2, wptr1) \<Rightarrow>
        {hdr_off ..< hdr_off + sizeof_afk_qe} \<union>
        (case hdr2 of None \<Rightarrow> {} | Some o2 \<Rightarrow> {o2 ..< o2 + sizeof_afk_qe}) \<union>
        {wptr1 ..< wptr1 + n})"

text \<open>The four bytes of the write-pointer block.\<close>

definition wptr_block :: "afk_ringbuffer \<Rightarrow> nat set" where
  "wptr_block b = {hdr b + blksz b * 2 ..< hdr b + blksz b * 2 + 4}"

text \<open>
  A valid state of the TX ring: the geometry above, and both pointers inside the
  body and aligned to \<open>0x40\<close>.
\<close>

definition tx_ring_valid :: "apple_dcp_afkep \<Rightarrow> bool" where
  "tx_ring_valid ep \<longleftrightarrow>
     ring_ok (txbfr ep) \<and>
     afk_rb_get_rptr (mem ep) (txbfr ep) < bufsz (txbfr ep) \<and>
     afk_rb_get_wptr (mem ep) (txbfr ep) < bufsz (txbfr ep) \<and>
     afk_rb_get_rptr (mem ep) (txbfr ep) mod 2 ^ BLOCK_SHIFT = 0 \<and>
     afk_rb_get_wptr (mem ep) (txbfr ep) mod 2 ^ BLOCK_SHIFT = 0"

text \<open>The conditions of \<open>afk_init_rxtx\<close> on the ring's own layout.\<close>

definition ring_body_size :: "apple_dcp_afkep \<Rightarrow> nat \<Rightarrow> nat" where
  "ring_body_size ep message = get_le 4 (ptr_of (bfr ep) + initrb_base message) (mem ep)"

definition init_rxtx_layout_ok :: "apple_dcp_afkep \<Rightarrow> nat \<Rightarrow> bool" where
  "init_rxtx_layout_ok ep message \<longleftrightarrow>
     initrb_tag message = bfr_tag ep \<and>
     initrb_size message > ring_body_size ep message \<and>
     (initrb_size message - ring_body_size ep message) mod 3 = 0 \<and>
     0 < (initrb_size message - ring_body_size ep message) div 3 \<and>
     ((initrb_size message - ring_body_size ep message) div 3) mod 0x40 = 0"

section \<open>Example inputs\<close>

text \<open>One instance of the header.\<close>

definition afk_h_example :: afk_h where
  "afk_h_example =
     \<lparr>QE_MAGIC_IOP = 0x20504f49, QE_MAGIC_AOP = 0x20504f41,
      EPIC_TYPE_COMMAND = 3, EPIC_CAT_COMMAND = 0x30, EPIC_CAT_REPLY = 0x20,
      MAX_PENDING_CMDS = 8, AFK_MAX_CHANNEL = 16,
      sizeof_epic_hdr = 16,
      ehdr_version = (0, 1), ehdr_seq = (1, 2), ehdr_timestamp = (8, 8),
      sizeof_epic_sub_hdr = 24,
      eshdr_length = (0, 4), eshdr_version = (4, 1), eshdr_category = (5, 1),
      eshdr_type = (6, 2), eshdr_timestamp = (8, 8), eshdr_tag = (16, 2),
      eshdr_inline_len = (20, 4),
      sizeof_epic_cmd = 30,
      cmd_retcode = (0, 4), cmd_rxbuf = (4, 8), cmd_rxlen = (20, 4),
      cmd_txbuf = (12, 8), cmd_txlen = (24, 4)\<rparr>"

text \<open>The endpoint as \<open>afk_init\<close> leaves it, with a one-entry service table.\<close>

definition slot_zero :: epic_cmd_slot where
  "slot_zero =
     \<lparr>tag = 0, rxbuf = 0, txbuf = 0, rxbuf_dma = 0, txbuf_dma = 0, rxlen = 0, txlen = 0,
      free_on_ack = False, cmd_done = False, completion = None, retcode = 0\<rparr>"

definition service_zero :: apple_epic_service where
  "service_zero =
     \<lparr>enabled = False, ops = [], channel = 0, cmd_tag = 0, cmd_map = (\<lambda>_. False),
      released = [], cmds = (\<lambda>_. slot_zero)\<rparr>"

definition ring_zero :: afk_ringbuffer where
  "ring_zero = \<lparr>ready = False, hdr = 0, blksz = 0, buf = 0, bufsz = 0\<rparr>"

definition name_SPUApp :: "byte list" where
  "name_SPUApp = [0x53, 0x50, 0x55, 0x41, 0x70, 0x70]"

definition ep_new :: apple_dcp_afkep where
  "ep_new =
     \<lparr>bfr = None, bfr_size = 0, bfr_tag = 0, bfr_dma = 0,
      rxbfr = ring_zero, txbfr = ring_zero, qe_seq = 0, num_channels = 0,
      services = (\<lambda>_. service_zero), ops_table = Some [name_SPUApp, []],
      mem = (\<lambda>_. 0), sent = [], dma_allocs = [], dma_frees = [], completed = []\<rparr>"

text \<open>
  After GETBUF: a staging buffer of \<open>0x400\<close> bytes at address \<open>0x10000\<close> with tag
  7, in which the coprocessor has written a body size of \<open>0x100\<close> at offset 0.
\<close>

definition ep_staged :: apple_dcp_afkep where
  "ep_staged =
     ep_new\<lparr>bfr := Some 0x10000, bfr_size := 0x400, bfr_tag := 7, bfr_dma := 0x80000,
            mem := put_le 4 0x10000 0x100 (\<lambda>_. 0)\<rparr>"

text \<open>INIT_TX for offset 0, size \<open>0x1c0\<close>, tag 7; and the same for offset \<open>0x400\<close>.\<close>

definition msg_init_tx :: nat where
  "msg_init_tx = 0x008a000000070007"

definition msg_init_tx_far :: nat where
  "msg_init_tx_far = 0x008a001000070007"

text \<open>
  The staged endpoint when the word at offset \<open>0x400\<close>, the first byte after the
  staging buffer, also holds \<open>0x100\<close>.
\<close>

definition ep_staged_far :: apple_dcp_afkep where
  "ep_staged_far = ep_staged\<lparr>mem := put_le 4 0x10400 0x100 (mem ep_staged)\<rparr>"

text \<open>
  A TX ring of body size \<open>0x100\<close> with header blocks of \<open>0x40\<close> bytes at address
  \<open>0x10000\<close>, with the given read and write pointers.
\<close>

definition ring_tx :: afk_ringbuffer where
  "ring_tx = \<lparr>ready = True, hdr = 0x10000, blksz = 0x40, buf = 0x100c0, bufsz = 0x100\<rparr>"

definition ep_ring :: "nat \<Rightarrow> nat \<Rightarrow> apple_dcp_afkep" where
  "ep_ring rptr wptr =
     ep_staged\<lparr>txbfr := ring_tx,
               mem := afk_rb_set_wptr ring_tx wptr
                        (afk_rb_set_rptr ring_tx rptr (mem ep_staged))\<rparr>"

text \<open>
  A service on channel 5 in slot 0 of the table, with a pending command of tag
  \<open>0x0100\<close> in slot 0 of its command table.
\<close>

definition slot_pending :: epic_cmd_slot where
  "slot_pending =
     slot_zero\<lparr>tag := 0x0100, rxbuf := 0x20000, txbuf := 0x21000, rxbuf_dma := 0x90000,
               txbuf_dma := 0x91000, rxlen := 64, txlen := 30, completion := Some 0x30000\<rparr>"

definition service_ch5 :: apple_epic_service where
  "service_ch5 =
     service_zero\<lparr>enabled := True, ops := name_SPUApp, channel := 5, cmd_tag := 2,
                  cmd_map := (\<lambda>_. False)(0 := True),
                  cmds := (\<lambda>_. slot_zero)(0 := slot_pending)\<rparr>"

definition ep_service :: apple_dcp_afkep where
  "ep_service = (ep_ring 0 0)\<lparr>num_channels := 1, services := (\<lambda>_. service_zero)(0 := service_ch5)\<rparr>"

text \<open>
  An announce payload: the name \<open>SPUApp\<close> padded to 16 bytes, four words, the
  channel 5, two more words.
\<close>

definition payload_announce_ch5 :: "byte list" where
  "payload_announce_ch5 =
     name_SPUApp @ replicate 10 0 @ replicate 16 0 @ [5, 0, 0, 0] @ replicate 8 0"

section \<open>Memory lemmas\<close>

lemma store_bytes_outside:
  "a' < a \<or> a + length bs \<le> a' \<Longrightarrow> store_bytes a bs m a' = m a'"
  by (induction bs arbitrary: a m) auto

lemma store_bytes_inside:
  "a \<le> a' \<Longrightarrow> a' < a + length bs \<Longrightarrow> store_bytes a bs m a' = bs ! (a' - a)"
proof (induction bs arbitrary: a m)
  case Nil
  then show ?case by simp
next
  case (Cons b bs)
  show ?case
  proof (cases "a' = a")
    case True
    then show ?thesis by (simp add: store_bytes_outside)
  next
    case False
    with Cons.prems have "Suc a \<le> a'" "a' < Suc a + length bs" by simp_all
    from Cons.IH [OF this] False Cons.prems show ?thesis
      by (simp add: Suc_diff_le nth_Cons')
  qed
qed

lemma length_load_bytes [simp]: "length (load_bytes a n m) = n"
  by (simp add: load_bytes_def)

lemma load_store_same [simp]: "load_bytes a (length bs) (store_bytes a bs m) = bs"
  by (rule nth_equalityI) (simp_all add: load_bytes_def store_bytes_inside)

lemma load_store_disjoint:
  "a + n \<le> b \<or> b + length bs \<le> a \<Longrightarrow> load_bytes a n (store_bytes b bs m) = load_bytes a n m"
  by (auto simp: load_bytes_def store_bytes_outside)

lemma length_le_bytes [simp]: "length (le_bytes n v) = n"
  by (induction n arbitrary: v) simp_all

lemma le_val_le_bytes: "le_val (le_bytes n v) = v mod 256 ^ n"
proof (induction n arbitrary: v)
  case 0
  then show ?case by simp
next
  case (Suc n)
  have "unat (of_nat (v mod 256) :: byte) = v mod 256"
    by (simp add: unat_of_nat)
  then show ?case
    using Suc [of "v div 256"] by (simp add: mod_mult2_eq)
qed

lemma get_put_le_same: "get_le n a (put_le n a v m) = v mod 256 ^ n"
  using load_store_same [of a "le_bytes n v" m]
  by (simp add: get_le_def put_le_def le_val_le_bytes)

lemma get_put_le_disjoint:
  "a + n \<le> b \<or> b + k \<le> a \<Longrightarrow> get_le n a (put_le k b v m) = get_le n a m"
  by (simp add: get_le_def put_le_def load_store_disjoint)

lemma put_le_outside:
  "a' < a \<or> a + n \<le> a' \<Longrightarrow> put_le n a v m a' = m a'"
  by (simp add: put_le_def store_bytes_outside)

lemma ep_ring_rptr:
  "r < 2 ^ 32 \<Longrightarrow> afk_rb_get_rptr (mem (ep_ring r w)) (txbfr (ep_ring r w)) = r"
  by (simp add: ep_ring_def afk_rb_get_rptr_def afk_rb_set_rptr_def afk_rb_set_wptr_def
      ring_tx_def get_put_le_same get_put_le_disjoint)

lemma ep_ring_wptr:
  "w < 2 ^ 32 \<Longrightarrow> afk_rb_get_wptr (mem (ep_ring r w)) (txbfr (ep_ring r w)) = w"
  by (simp add: ep_ring_def afk_rb_get_wptr_def afk_rb_set_rptr_def afk_rb_set_wptr_def
      ring_tx_def get_put_le_same get_put_le_disjoint)

section \<open>Buffer negotiation: results\<close>

text \<open>
  C9.  A GETBUF message that arrives while the staging buffer exists changes
  nothing: no allocation is requested, no GETBUF_ACK (nor any other message) is
  sent, and the staging pointer, size and tag keep their values.
\<close>

theorem afk_getbuf_existing_buffer:
  assumes "bfr ep \<noteq> None"
  shows "afk_getbuf alloc ep message = ep \<and>
         dma_allocs (afk_getbuf alloc ep message) = dma_allocs ep \<and>
         sent (afk_getbuf alloc ep message) = sent ep \<and>
         bfr (afk_getbuf alloc ep message) = bfr ep \<and>
         bfr_size (afk_getbuf alloc ep message) = bfr_size ep \<and>
         bfr_tag (afk_getbuf alloc ep message) = bfr_tag ep"
  using assms by (simp add: afk_getbuf_def Let_def)

theorem afk_getbuf_existing_buffer_witness:
  "bfr ep_staged \<noteq> None \<and>
   afk_getbuf (\<lambda>n. Some (0x50000, 0xa0000)) ep_staged 0x0089000000100009 = ep_staged \<and>
   dma_allocs (afk_getbuf (\<lambda>n. Some (0x50000, 0xa0000)) ep_staged 0x0089000000100009) = [] \<and>
   sent (afk_getbuf (\<lambda>n. Some (0x50000, 0xa0000)) ep_staged 0x0089000000100009) = [] \<and>
   bfr (afk_getbuf (\<lambda>n. Some (0x50000, 0xa0000)) ep_staged 0x0089000000100009) = Some 0x10000 \<and>
   bfr_size (afk_getbuf (\<lambda>n. Some (0x50000, 0xa0000)) ep_staged 0x0089000000100009) = 0x400 \<and>
   bfr_tag (afk_getbuf (\<lambda>n. Some (0x50000, 0xa0000)) ep_staged 0x0089000000100009) = 7"
proof -
  have h: "bfr ep_staged \<noteq> None"
    by (simp add: ep_staged_def)
  show ?thesis
    using afk_getbuf_existing_buffer [OF h, of "\<lambda>n. Some (0x50000, 0xa0000)" "0x0089000000100009"] h
    by (simp add: ep_staged_def ep_new_def)
qed

lemma initrb_size_bound: "initrb_size m < 2 ^ 22"
proof -
  have "FIELD_GET 31 16 m < 2 ^ 16" by (simp add: FIELD_GET_def)
  then have "FIELD_GET 31 16 m * 64 < 2 ^ 22" by simp
  then show ?thesis by (simp add: initrb_size_def u32_def BLOCK_SHIFT_def)
qed

lemma initrb_base_bound: "initrb_base m < 2 ^ 22"
proof -
  have "FIELD_GET 47 32 m < 2 ^ 16" by (simp add: FIELD_GET_def)
  then have "FIELD_GET 47 32 m * 64 < 2 ^ 22" by simp
  then show ?thesis by (simp add: initrb_base_def u32_def BLOCK_SHIFT_def)
qed

lemma u32_base_size: "u32 (initrb_base m + initrb_size m) = initrb_base m + initrb_size m"
  using initrb_base_bound [of m] initrb_size_bound [of m] by (simp add: u32_def)

lemma get_set_bfr [simp]: "get_bfr w (set_bfr w b ep) = b"
  by (cases w) simp_all

lemma get_bfr_afk_send [simp]: "get_bfr w (afk_send ep m) = get_bfr w ep"
  by (cases w) (simp_all add: afk_send_def)

lemma mem_set_bfr [simp]: "mem (set_bfr w b ep) = mem ep"
  by (cases w) simp_all

lemma blk_cond: "(b < (64::nat) \<or> b mod 64 \<noteq> 0) \<longleftrightarrow> \<not> (0 < b \<and> b mod 64 = 0)"
  by auto

text \<open>A ring that \<open>afk_init_rxtx\<close> has just made ready has the geometry \<open>ring_ok\<close>.\<close>

lemma afk_init_rxtx_ring_ok:
  assumes n: "\<not> ready (get_bfr w ep)"
    and r: "ready (get_bfr w (afk_init_rxtx ep message w))"
  shows "ring_ok (get_bfr w (afk_init_rxtx ep message w))"
proof -
  let ?s = "initrb_size message"
  let ?b = "get_le 4 (ptr_of (bfr ep) + initrb_base message) (mem ep)"
  let ?k = "(?s - ?b) div 3"
  from n r have c: "?b < ?s" "(?s - ?b) mod 3 = 0" "\<not> ?k < 64" "?k mod 64 = 0"
    and g: "get_bfr w (afk_init_rxtx ep message w) =
      (get_bfr w ep)\<lparr>hdr := ptr_of (bfr ep) + initrb_base message,
         buf := ptr_of (bfr ep) + initrb_base message + (?s - ?b), bufsz := ?b,
         blksz := ?k, ready := True\<rparr>"
    by (auto simp: afk_init_rxtx_def Let_def BLOCK_SHIFT_def split: if_splits)
  define k where "k = ?k"
  have "64 dvd ?s"
    by (simp add: initrb_size_def u32_def BLOCK_SHIFT_def mod_mod_cancel dvd_eq_mod_eq_0)
  from c(2) have h3: "?s - ?b = 3 * k"
    by (simp add: mod_eq_0_iff_dvd k_def)
  from c(3,4) have k: "64 \<le> k" "k mod 64 = 0"
    by (simp_all add: k_def)
  then have "64 dvd k"
    by (simp add: dvd_eq_mod_eq_0)
  then have "64 dvd 3 * k"
    by (rule dvd_mult)
  with \<open>64 dvd ?s\<close> have "64 dvd ?s - 3 * k"
    by (rule dvd_diff_nat)
  moreover from c(1) h3 have "?s - 3 * k = ?b"
    by simp
  ultimately have "?b mod 64 = 0"
    by (simp add: dvd_eq_mod_eq_0)
  moreover from c(1) initrb_size_bound [of message] have "?b < 2 ^ 22"
    by simp
  ultimately show ?thesis
    unfolding g k_def [symmetric] using k h3 by (simp add: ring_ok_def BLOCK_SHIFT_def)
qed

text \<open>
  C4, as amended.  A ring that is already ready is left as it is.  A ring that is
  not ready becomes ready exactly when the tag equals the staging tag, the ring
  starts inside the staging buffer and ends inside it, the declared size
  exceeds the body size read from the ring's header, the difference is a multiple
  of 3, and a third of it is a positive multiple of \<open>0x40\<close>; otherwise it stays
  not ready.
\<close>

theorem afk_init_rxtx_accepts_iff:
  "(ready (get_bfr w ep) \<longrightarrow> afk_init_rxtx ep message w = ep) \<and>
   (\<not> ready (get_bfr w ep) \<longrightarrow>
      (ready (get_bfr w (afk_init_rxtx ep message w)) \<longleftrightarrow>
         init_rxtx_layout_ok ep message \<and>
         initrb_base message < bfr_size ep \<and>
         initrb_base message + initrb_size message \<le> bfr_size ep))"
  by (auto simp: afk_init_rxtx_def Let_def init_rxtx_layout_ok_def ring_body_size_def
      u32_base_size BLOCK_SHIFT_def blk_cond)

theorem afk_init_rxtx_accepts_iff_witness:
  "\<not> ready (get_bfr TX ep_staged) \<and>
   init_rxtx_layout_ok ep_staged msg_init_tx \<and>
   initrb_base msg_init_tx < bfr_size ep_staged \<and>
   initrb_base msg_init_tx + initrb_size msg_init_tx \<le> bfr_size ep_staged \<and>
   ready (get_bfr TX (afk_init_rxtx ep_staged msg_init_tx TX)) \<and>
   ready (get_bfr TX (ep_ring 0 0)) \<and>
   afk_init_rxtx (ep_ring 0 0) msg_init_tx TX = ep_ring 0 0"
proof -
  have b: "ring_body_size ep_staged msg_init_tx = 0x100"
    by (simp add: ring_body_size_def ep_staged_def ep_new_def ptr_of_def initrb_base_def
        msg_init_tx_def FIELD_GET_def u32_def get_put_le_same)
  have l: "init_rxtx_layout_ok ep_staged msg_init_tx"
    unfolding init_rxtx_layout_ok_def b
    by (simp add: initrb_tag_def initrb_size_def msg_init_tx_def FIELD_GET_def u16_def u32_def
        BLOCK_SHIFT_def ep_staged_def)
  have n: "\<not> ready (get_bfr TX ep_staged)"
    by (simp add: ep_staged_def ep_new_def ring_zero_def)
  have r: "initrb_base msg_init_tx < bfr_size ep_staged \<and>
      initrb_base msg_init_tx + initrb_size msg_init_tx \<le> bfr_size ep_staged"
    by (simp add: initrb_base_def initrb_size_def msg_init_tx_def FIELD_GET_def u32_def
        BLOCK_SHIFT_def ep_staged_def)
  have y: "ready (get_bfr TX (ep_ring 0 0))"
    by (simp add: ep_ring_def ring_tx_def)
  from afk_init_rxtx_accepts_iff [of TX ep_staged msg_init_tx]
    afk_init_rxtx_accepts_iff [of TX "ep_ring 0 0" msg_init_tx] l n r y
  show ?thesis by simp
qed

text \<open>
  The claim without the two bounds fails: a message whose tag and sizes satisfy
  the four conditions of the claim, but whose offset is the size of the staging
  buffer, is rejected.
\<close>

theorem afk_init_rxtx_out_of_staging_counterexample:
  "initrb_tag msg_init_tx_far = bfr_tag ep_staged_far \<and>
   init_rxtx_layout_ok ep_staged_far msg_init_tx_far \<and>
   \<not> ready (get_bfr TX ep_staged_far) \<and>
   \<not> ready (get_bfr TX (afk_init_rxtx ep_staged_far msg_init_tx_far TX))"
proof -
  have b: "ring_body_size ep_staged_far msg_init_tx_far = 0x100"
    by (simp add: ring_body_size_def ep_staged_far_def ep_staged_def ep_new_def ptr_of_def
        initrb_base_def msg_init_tx_far_def FIELD_GET_def u32_def BLOCK_SHIFT_def get_put_le_same)
  have l: "init_rxtx_layout_ok ep_staged_far msg_init_tx_far"
    unfolding init_rxtx_layout_ok_def b
    by (simp add: initrb_tag_def initrb_size_def msg_init_tx_far_def FIELD_GET_def u16_def u32_def
        BLOCK_SHIFT_def ep_staged_far_def ep_staged_def)
  have n: "\<not> ready (get_bfr TX ep_staged_far)"
    by (simp add: ep_staged_far_def ep_staged_def ep_new_def ring_zero_def)
  have r: "\<not> initrb_base msg_init_tx_far < bfr_size ep_staged_far"
    by (simp add: initrb_base_def msg_init_tx_far_def FIELD_GET_def u32_def
        BLOCK_SHIFT_def ep_staged_far_def ep_staged_def)
  have "afk_init_rxtx ep_staged_far msg_init_tx_far TX = ep_staged_far"
    using r by (simp add: afk_init_rxtx_def Let_def)
  with l n show ?thesis by (simp add: init_rxtx_layout_ok_def)
qed


section \<open>Service registry: results\<close>

lemma prop_channel_ex: "prop_channel payload_announce_ch5 = 5"
  by (simp add: prop_channel_def payload_announce_ch5_def name_SPUApp_def)

lemma prop_name_ex: "prop_name payload_announce_ch5 = name_SPUApp"
  by (simp add: prop_name_def c_string_def payload_announce_ch5_def name_SPUApp_def)

text \<open>
  C6.  The claim fails for \<open>apple_aop_recv_handle_init\<close>: the endpoint has an
  enabled service on channel 5 and none on channel 7; an announce that arrives on
  wire channel 7 and names channel 5 in its payload is registered, and the table
  then holds two enabled entries with channel 5.
\<close>

theorem apple_aop_recv_handle_init_duplicate_channel:
  "afk_epic_find_service ep_service 7 = None \<and>
   afk_epic_find_service ep_service 5 = Some 0 \<and>
   num_channels (apple_aop_recv_handle_init afk_h_example ep_service 0xc0 7 payload_announce_ch5) = 2 \<and>
   enabled (services (apple_aop_recv_handle_init afk_h_example ep_service 0xc0 7 payload_announce_ch5) 0) \<and>
   enabled (services (apple_aop_recv_handle_init afk_h_example ep_service 0xc0 7 payload_announce_ch5) 1) \<and>
   channel (services (apple_aop_recv_handle_init afk_h_example ep_service 0xc0 7 payload_announce_ch5) 0) = 5 \<and>
   channel (services (apple_aop_recv_handle_init afk_h_example ep_service 0xc0 7 payload_announce_ch5) 1) = 5"
proof -
  have m: "afk_match_service ep_service name_SPUApp = Some name_SPUApp"
    by (simp add: afk_match_service_def ep_service_def ep_ring_def ep_staged_def ep_new_def
        name_SPUApp_def)
  have l: "length payload_announce_ch5 = 44"
    by (simp add: payload_announce_ch5_def name_SPUApp_def)
  have f: "afk_epic_find_service ep_service 7 = None" "afk_epic_find_service ep_service 5 = Some 0"
    by (simp_all add: afk_epic_find_service_def ep_service_def service_ch5_def service_zero_def)
  have n: "num_channels ep_service = 1" "services ep_service 0 = service_ch5"
    by (simp_all add: ep_service_def)
  show ?thesis
    using f by (simp add: apple_aop_recv_handle_init_def l m n prop_name_ex prop_channel_ex
        sizeof_aop_epic_service_init_def afk_h_example_def service_ch5_def service_zero_def)
qed


section \<open>Reply matching: results\<close>

text \<open>
  C5.  A reply whose tag index is out of range, whose tag differs from the stored
  tag, or whose slot is already done, leaves the endpoint as it is; in
  particular every pending command keeps its fields, and its done flag.
\<close>

theorem afk_recv_handle_reply_rejects:
  assumes "afk_epic_find_service ep ch = Some si"
    and "tg mod 256 \<ge> MAX_PENDING_CMDS h \<or>
         tg \<noteq> tag (cmds (services ep si) (tg mod 256)) \<or>
         cmd_done (cmds (services ep si) (tg mod 256))"
  shows "afk_recv_handle_reply h ep ch tg payload = ep \<and>
         cmds (services (afk_recv_handle_reply h ep ch tg payload) si) =
           cmds (services ep si)"
  using assms by (auto simp: afk_recv_handle_reply_def Let_def)

theorem afk_recv_handle_reply_rejects_witness:
  "afk_epic_find_service ep_service 5 = Some 0 \<and>
   (0x0200 mod 256 \<ge> MAX_PENDING_CMDS afk_h_example \<or>
    0x0200 \<noteq> tag (cmds (services ep_service 0) (0x0200 mod 256)) \<or>
    cmd_done (cmds (services ep_service 0) (0x0200 mod 256))) \<and>
   afk_recv_handle_reply afk_h_example ep_service 5 0x0200 (replicate 30 0) = ep_service \<and>
   \<not> cmd_done (cmds (services
       (afk_recv_handle_reply afk_h_example ep_service 5 0x0200 (replicate 30 0)) 0) 0)"
proof -
  have f: "afk_epic_find_service ep_service 5 = Some 0"
    by (simp add: afk_epic_find_service_def ep_service_def service_ch5_def service_zero_def)
  have c: "0x0200 mod 256 \<ge> MAX_PENDING_CMDS afk_h_example \<or>
    0x0200 \<noteq> tag (cmds (services ep_service 0) (0x0200 mod 256)) \<or>
    cmd_done (cmds (services ep_service 0) (0x0200 mod 256))"
    by (simp add: ep_service_def service_ch5_def slot_pending_def slot_zero_def)
  have d: "\<not> cmd_done (cmds (services ep_service 0) 0)"
    by (simp add: ep_service_def service_ch5_def slot_pending_def slot_zero_def)
  from afk_recv_handle_reply_rejects [OF f c, of "replicate 30 0"] f c d
  show ?thesis by simp
qed


section \<open>Sending: results\<close>

text \<open>
  C7.  When the write pointer is below the read pointer and the frame, placed at
  the write pointer, would pass the read pointer, \<open>afk_send_epic\<close> returns
  \<open>-ENOMEM\<close> and the endpoint is as before: the memory, and with it the
  write-pointer block, is not stored to, and no message is sent.  The third
  premise says that the sizes do not overflow \<open>size_t\<close>.
\<close>

theorem afk_send_epic_no_space_before_rptr:
  assumes "afk_rb_get_wptr (mem ep) (txbfr ep) < afk_rb_get_rptr (mem ep) (txbfr ep)"
    and "afk_rb_get_wptr (mem ep) (txbfr ep) +
           (sizeof_afk_qe + sizeof_epic_hdr h + sizeof_epic_sub_hdr h + length payload)
         > afk_rb_get_rptr (mem ep) (txbfr ep)"
    and "afk_rb_get_wptr (mem ep) (txbfr ep) +
           (sizeof_afk_qe + sizeof_epic_hdr h + sizeof_epic_sub_hdr h + length payload)
         < 2 ^ 64"
  shows "afk_send_epic h ep ch tg etype ecat stype payload = (Inl ENOMEM, ep) \<and>
         afk_rb_get_wptr (mem (snd (afk_send_epic h ep ch tg etype ecat stype payload))) (txbfr ep)
           = afk_rb_get_wptr (mem ep) (txbfr ep) \<and>
         mem (snd (afk_send_epic h ep ch tg etype ecat stype payload)) = mem ep \<and>
         sent (snd (afk_send_epic h ep ch tg etype ecat stype payload)) = sent ep"
proof -
  let ?w = "afk_rb_get_wptr (mem ep) (txbfr ep)"
  let ?e = "sizeof_epic_hdr h + sizeof_epic_sub_hdr h + length payload"
  from assms(3) have b: "?e < 2 ^ 64" "sizeof_afk_qe + ?e < 2 ^ 64"
      "?w + (sizeof_afk_qe + ?e) < 2 ^ 64"
    by simp_all
  have "afk_send_epic_layout h ep (length payload) = Inl ENOMEM"
    using assms(1,2) b
    by (simp add: afk_send_epic_layout_def afk_send_epic_place_def total_size_def
        total_epic_size_def usize_def)
  then have "afk_send_epic h ep ch tg etype ecat stype payload = (Inl ENOMEM, ep)"
    by (simp add: afk_send_epic_def Let_def)
  then show ?thesis by simp
qed

theorem afk_send_epic_no_space_before_rptr_witness:
  "afk_rb_get_wptr (mem (ep_ring 0x80 0x40)) (txbfr (ep_ring 0x80 0x40))
     < afk_rb_get_rptr (mem (ep_ring 0x80 0x40)) (txbfr (ep_ring 0x80 0x40)) \<and>
   afk_rb_get_wptr (mem (ep_ring 0x80 0x40)) (txbfr (ep_ring 0x80 0x40)) +
     (sizeof_afk_qe + sizeof_epic_hdr afk_h_example + sizeof_epic_sub_hdr afk_h_example +
      length (replicate 30 (0::byte)))
     > afk_rb_get_rptr (mem (ep_ring 0x80 0x40)) (txbfr (ep_ring 0x80 0x40)) \<and>
   afk_send_epic afk_h_example (ep_ring 0x80 0x40) 5 0x0100 3 0x30 0xc0 (replicate 30 0)
     = (Inl ENOMEM, ep_ring 0x80 0x40) \<and>
   afk_rb_get_wptr
     (mem (snd (afk_send_epic afk_h_example (ep_ring 0x80 0x40) 5 0x0100 3 0x30 0xc0
                  (replicate 30 0))))
     (txbfr (ep_ring 0x80 0x40)) = 0x40"
proof -
  have r: "afk_rb_get_rptr (mem (ep_ring 0x80 0x40)) (txbfr (ep_ring 0x80 0x40)) = 0x80"
    by (simp add: ep_ring_rptr)
  have w: "afk_rb_get_wptr (mem (ep_ring 0x80 0x40)) (txbfr (ep_ring 0x80 0x40)) = 0x40"
    by (simp add: ep_ring_wptr)
  have "afk_send_epic afk_h_example (ep_ring 0x80 0x40) 5 0x0100 3 0x30 0xc0 (replicate 30 0)
      = (Inl ENOMEM, ep_ring 0x80 0x40)"
    using afk_send_epic_no_space_before_rptr
            [of "ep_ring 0x80 0x40" afk_h_example "replicate 30 0" 5 "0x0100" 3 "0x30" "0xc0"]
    by (simp add: r w sizeof_afk_qe_def afk_h_example_def)
  then show ?thesis
    by (simp add: r w sizeof_afk_qe_def afk_h_example_def)
qed

section \<open>The frame in memory\<close>

lemma load_bytes_cong:
  "(\<And>a. p \<le> a \<Longrightarrow> a < p + n \<Longrightarrow> m a = m' a) \<Longrightarrow> load_bytes p n m = load_bytes p n m'"
  by (simp add: load_bytes_def)

lemma get_field_cong:
  "(\<And>a. p + fst f \<le> a \<Longrightarrow> a < p + fst f + snd f \<Longrightarrow> m a = m' a)
     \<Longrightarrow> get_field f p m = get_field f p m'"
  unfolding get_field_def get_le_def by (rule arg_cong [where f = le_val], rule load_bytes_cong)

lemma put_field_outside:
  "a < p + fst f \<or> p + fst f + snd f \<le> a \<Longrightarrow> put_field f p v m a = m a"
  by (simp add: put_field_def put_le_outside)

lemma put_field_outside_struct:
  "field_in f n \<Longrightarrow> a < p \<or> p + n \<le> a \<Longrightarrow> put_field f p v m a = m a"
  by (rule put_field_outside) (auto simp: field_in_def)

lemma get_put_field_same: "get_field f p (put_field f p v m) = v mod 256 ^ snd f"
  by (simp add: get_field_def put_field_def get_put_le_same)

lemma get_put_field_disjoint:
  "fst f + snd f \<le> fst g \<or> fst g + snd g \<le> fst f
     \<Longrightarrow> get_field f p (put_field g p v m) = get_field f p m"
  by (rule get_field_cong, rule put_field_outside) auto

lemma write_qe_outside:
  "a < p \<or> p + sizeof_afk_qe \<le> a \<Longrightarrow> write_qe p mg sz ch ty m a = m a"
  by (auto simp: write_qe_def put_field_outside qe_magic_def qe_size_def qe_channel_def
      qe_type_def sizeof_afk_qe_def)

lemma write_qe_fields:
  "get_field qe_magic p (write_qe p mg sz ch ty m) = u32 mg"
  "get_field qe_size p (write_qe p mg sz ch ty m) = u32 sz"
  "get_field qe_channel p (write_qe p mg sz ch ty m) = u32 ch"
  "get_field qe_type p (write_qe p mg sz ch ty m) = u32 ty"
  by (simp_all add: write_qe_def get_put_field_same get_put_field_disjoint
      qe_magic_def qe_size_def qe_channel_def qe_type_def u32_def)

lemma u32_u32 [simp]: "u32 (u32 x) = u32 x"
  by (simp add: u32_def)

lemma u32_id: "x < 2 ^ 32 \<Longrightarrow> u32 x = x"
  by (simp add: u32_def)

lemma write_ehdr_outside:
  "layout_ok h \<Longrightarrow> a < p \<or> p + sizeof_epic_hdr h \<le> a \<Longrightarrow> write_ehdr h p seq m a = m a"
  by (auto simp: write_ehdr_def layout_ok_def put_field_outside_struct store_bytes_outside)

lemma write_eshdr_outside:
  "layout_ok h \<Longrightarrow> a < p \<or> p + sizeof_epic_sub_hdr h \<le> a
     \<Longrightarrow> write_eshdr h p n ecat stype tg m a = m a"
  by (auto simp: write_eshdr_def layout_ok_def put_field_outside_struct store_bytes_outside)

lemma write_eshdr_inline_len:
  "get_field (eshdr_inline_len h) p (write_eshdr h p n ecat stype tg m) =
     (if ecat = EPIC_CAT_REPLY h then u16 (usize_sub n 4) else u16 0) mod 256 ^ snd (eshdr_inline_len h)"
  by (simp add: write_eshdr_def get_put_field_same)

lemma u16_mod_width: "2 \<le> w \<Longrightarrow> u16 x mod 256 ^ w = u16 x"
proof -
  assume "2 \<le> w"
  then have "(256::nat) ^ 2 \<le> 256 ^ w"
    by (intro power_increasing) simp_all
  moreover have "u16 x < 256 ^ 2"
    by (simp add: u16_def)
  ultimately show ?thesis by simp
qed

lemma place_cases:
  assumes "afk_send_epic_place bsz rptr wptr epic (sizeof_afk_qe + epic) = Inr (ho, h2, w1)"
    and "bsz < 2 ^ 32" and "rptr \<le> bsz" and "wptr < 2 ^ 32" and "epic < 2 ^ 32"
  shows "ho = wptr \<and>
     (h2 = None \<and> w1 = wptr + sizeof_afk_qe \<and>
        wptr + sizeof_afk_qe + epic \<le> (if wptr < rptr then rptr else bsz) \<or>
      h2 = Some 0 \<and> w1 = sizeof_afk_qe \<and> rptr \<le> wptr \<and> wptr + sizeof_afk_qe \<le> bsz \<and>
        bsz < wptr + sizeof_afk_qe + epic \<and> sizeof_afk_qe + epic \<le> rptr)"
proof -
  have u: "usize (wptr + (sizeof_afk_qe + epic)) = wptr + (sizeof_afk_qe + epic)"
    "usize (wptr + sizeof_afk_qe) = wptr + sizeof_afk_qe"
    "usize (sizeof_afk_qe + epic) = sizeof_afk_qe + epic"
    using assms(4,5) by (simp_all add: usize_def sizeof_afk_qe_def)
  show ?thesis
    using assms unfolding afk_send_epic_place_def u
    by (auto simp: u32_def sizeof_afk_qe_def split: if_splits)
qed

lemma total_epic_size_id:
  "sizeof_afk_qe + sizeof_epic_hdr h + sizeof_epic_sub_hdr h + n < 2 ^ 32 \<Longrightarrow>
   total_epic_size h n = sizeof_epic_hdr h + sizeof_epic_sub_hdr h + n"
  by (simp add: total_epic_size_def usize_def)

lemma total_size_id:
  "sizeof_afk_qe + sizeof_epic_hdr h + sizeof_epic_sub_hdr h + n < 2 ^ 32 \<Longrightarrow>
   total_size h n = sizeof_afk_qe + (sizeof_epic_hdr h + sizeof_epic_sub_hdr h + n)"
  by (simp add: total_size_def total_epic_size_def usize_def)

text \<open>What a valid TX ring and a successful placement give.\<close>

lemma layout_cases:
  assumes v: "tx_ring_valid ep"
    and f: "sizeof_afk_qe + sizeof_epic_hdr h + sizeof_epic_sub_hdr h + n < 2 ^ 32"
    and l: "afk_send_epic_layout h ep n = Inr (ho, h2, w1)"
  shows "ho = afk_rb_get_wptr (mem ep) (txbfr ep) \<and>
     (h2 = None \<and> w1 = ho + sizeof_afk_qe \<and>
        ho + sizeof_afk_qe + (sizeof_epic_hdr h + sizeof_epic_sub_hdr h + n)
          \<le> (if ho < afk_rb_get_rptr (mem ep) (txbfr ep)
              then afk_rb_get_rptr (mem ep) (txbfr ep) else bufsz (txbfr ep)) \<or>
      h2 = Some 0 \<and> w1 = sizeof_afk_qe \<and> afk_rb_get_rptr (mem ep) (txbfr ep) \<le> ho \<and>
        ho + sizeof_afk_qe \<le> bufsz (txbfr ep) \<and>
        bufsz (txbfr ep) < ho + sizeof_afk_qe + (sizeof_epic_hdr h + sizeof_epic_sub_hdr h + n) \<and>
        sizeof_afk_qe + (sizeof_epic_hdr h + sizeof_epic_sub_hdr h + n)
          \<le> afk_rb_get_rptr (mem ep) (txbfr ep))"
proof -
  from v have b: "bufsz (txbfr ep) < 2 ^ 32"
    "afk_rb_get_rptr (mem ep) (txbfr ep) \<le> bufsz (txbfr ep)"
    "afk_rb_get_wptr (mem ep) (txbfr ep) < 2 ^ 32"
    by (simp_all add: tx_ring_valid_def ring_ok_def)
  from f have e: "sizeof_epic_hdr h + sizeof_epic_sub_hdr h + n < 2 ^ 32"
    by simp
  from l have "afk_send_epic_place (bufsz (txbfr ep)) (afk_rb_get_rptr (mem ep) (txbfr ep))
      (afk_rb_get_wptr (mem ep) (txbfr ep)) (sizeof_epic_hdr h + sizeof_epic_sub_hdr h + n)
      (sizeof_afk_qe + (sizeof_epic_hdr h + sizeof_epic_sub_hdr h + n)) = Inr (ho, h2, w1)"
    by (simp add: afk_send_epic_layout_def total_epic_size_id [OF f] total_size_id [OF f])
  from place_cases [OF this b e] show ?thesis by simp
qed

lemma layout_in_body:
  assumes v: "tx_ring_valid ep"
    and f: "sizeof_afk_qe + sizeof_epic_hdr h + sizeof_epic_sub_hdr h + n < 2 ^ 32"
    and l: "afk_send_epic_layout h ep n = Inr (ho, h2, w1)"
  shows "ho + sizeof_afk_qe \<le> bufsz (txbfr ep)"
    and "w1 + sizeof_epic_hdr h + sizeof_epic_sub_hdr h + n \<le> bufsz (txbfr ep)"
    and "sizeof_afk_qe \<le> w1"
    and "h2 = None \<Longrightarrow> w1 = ho + sizeof_afk_qe"
    and "h2 \<noteq> None \<Longrightarrow> h2 = Some 0 \<and> w1 = sizeof_afk_qe \<and>
           w1 + sizeof_epic_hdr h + sizeof_epic_sub_hdr h + n \<le> ho"
proof -
  from v have r: "afk_rb_get_rptr (mem ep) (txbfr ep) \<le> bufsz (txbfr ep)"
    by (simp add: tx_ring_valid_def)
  note c = layout_cases [OF v f l]
  show "ho + sizeof_afk_qe \<le> bufsz (txbfr ep)"
    using c r by (auto split: if_splits)
  show "w1 + sizeof_epic_hdr h + sizeof_epic_sub_hdr h + n \<le> bufsz (txbfr ep)"
    using c r by (auto split: if_splits)
  show "sizeof_afk_qe \<le> w1"
    using c by auto
  show "h2 = None \<Longrightarrow> w1 = ho + sizeof_afk_qe"
    using c by auto
  show "h2 \<noteq> None \<Longrightarrow> h2 = Some 0 \<and> w1 = sizeof_afk_qe \<and>
           w1 + sizeof_epic_hdr h + sizeof_epic_sub_hdr h + n \<le> ho"
    using c by auto
qed

text \<open>The memory after a successful \<open>afk_send_epic\<close>, with the \<open>u32\<close> sums resolved.\<close>

lemma afk_send_epic_success:
  assumes v: "tx_ring_valid ep"
    and f: "sizeof_afk_qe + sizeof_epic_hdr h + sizeof_epic_sub_hdr h + length payload < 2 ^ 32"
    and l: "afk_send_epic_layout h ep (length payload) = Inr (ho, h2, w1)"
  shows "fst (afk_send_epic h ep ch tg etype ecat stype payload) = Inr ()"
    and "\<exists>w. mem (snd (afk_send_epic h ep ch tg etype ecat stype payload)) =
      afk_rb_set_wptr (txbfr ep) w
       (store_bytes (buf (txbfr ep) + (w1 + sizeof_epic_hdr h + sizeof_epic_sub_hdr h)) payload
         (write_eshdr h (buf (txbfr ep) + (w1 + sizeof_epic_hdr h)) (length payload) ecat stype tg
           (write_ehdr h (buf (txbfr ep) + w1) (qe_seq ep)
             (case h2 of
                None \<Rightarrow> write_qe (buf (txbfr ep) + ho) (QE_MAGIC_IOP h)
                          (sizeof_epic_hdr h + sizeof_epic_sub_hdr h + length payload)
                          (u32 ch) (u32 etype) (mem ep)
              | Some o2 \<Rightarrow>
                  store_bytes (buf (txbfr ep) + o2)
                    (load_bytes (buf (txbfr ep) + ho) sizeof_afk_qe
                       (write_qe (buf (txbfr ep) + ho) (QE_MAGIC_IOP h)
                          (sizeof_epic_hdr h + sizeof_epic_sub_hdr h + length payload)
                          (u32 ch) (u32 etype) (mem ep)))
                    (write_qe (buf (txbfr ep) + ho) (QE_MAGIC_IOP h)
                          (sizeof_epic_hdr h + sizeof_epic_sub_hdr h + length payload)
                          (u32 ch) (u32 etype) (mem ep))))))"
proof -
  from v have b: "bufsz (txbfr ep) < 2 ^ 32"
    by (simp add: tx_ring_valid_def ring_ok_def)
  from layout_in_body(2) [OF v f l] b
  have w: "w1 + sizeof_epic_hdr h + sizeof_epic_sub_hdr h + length payload < 2 ^ 32"
    by simp
  then have u: "u32 (w1 + sizeof_epic_hdr h) = w1 + sizeof_epic_hdr h"
    "u32 (w1 + sizeof_epic_hdr h + sizeof_epic_sub_hdr h) =
       w1 + sizeof_epic_hdr h + sizeof_epic_sub_hdr h"
    by (simp_all add: u32_def)
  have t: "u32 (total_epic_size h (length payload)) =
      sizeof_epic_hdr h + sizeof_epic_sub_hdr h + length payload"
    using f by (simp add: total_epic_size_id u32_def)
  show "fst (afk_send_epic h ep ch tg etype ecat stype payload) = Inr ()"
    by (simp add: afk_send_epic_def l Let_def)
  show "\<exists>w. mem (snd (afk_send_epic h ep ch tg etype ecat stype payload)) =
      afk_rb_set_wptr (txbfr ep) w
       (store_bytes (buf (txbfr ep) + (w1 + sizeof_epic_hdr h + sizeof_epic_sub_hdr h)) payload
         (write_eshdr h (buf (txbfr ep) + (w1 + sizeof_epic_hdr h)) (length payload) ecat stype tg
           (write_ehdr h (buf (txbfr ep) + w1) (qe_seq ep)
             (case h2 of
                None \<Rightarrow> write_qe (buf (txbfr ep) + ho) (QE_MAGIC_IOP h)
                          (sizeof_epic_hdr h + sizeof_epic_sub_hdr h + length payload)
                          (u32 ch) (u32 etype) (mem ep)
              | Some o2 \<Rightarrow>
                  store_bytes (buf (txbfr ep) + o2)
                    (load_bytes (buf (txbfr ep) + ho) sizeof_afk_qe
                       (write_qe (buf (txbfr ep) + ho) (QE_MAGIC_IOP h)
                          (sizeof_epic_hdr h + sizeof_epic_sub_hdr h + length payload)
                          (u32 ch) (u32 etype) (mem ep)))
                    (write_qe (buf (txbfr ep) + ho) (QE_MAGIC_IOP h)
                          (sizeof_epic_hdr h + sizeof_epic_sub_hdr h + length payload)
                          (u32 ch) (u32 etype) (mem ep))))))"
    by (auto simp: afk_send_epic_def l Let_def afk_send_def u t split: option.split)
qed

lemma image_ivl_iff: "a \<in> (\<lambda>o'. b + o') ` {x ..< y} \<longleftrightarrow> b + x \<le> a \<and> a < b + (y::nat)"
proof
  assume "a \<in> (\<lambda>o'. b + o') ` {x ..< y}"
  then show "b + x \<le> a \<and> a < b + y" by auto
next
  assume h: "b + x \<le> a \<and> a < b + y"
  then have "a - b \<in> {x ..< y}" "a = b + (a - b)" by auto
  then show "a \<in> (\<lambda>o'. b + o') ` {x ..< y}" by (rule_tac image_eqI)
qed

lemma set_wptr_body: "ring_ok b \<Longrightarrow> buf b \<le> a \<Longrightarrow> afk_rb_set_wptr b w m a = m a"
  by (simp add: afk_rb_set_wptr_def ring_ok_def put_le_outside BLOCK_SHIFT_def)

lemma set_rptr_body: "ring_ok b \<Longrightarrow> buf b \<le> a \<Longrightarrow> afk_rb_set_rptr b w m a = m a"
  by (simp add: afk_rb_set_rptr_def ring_ok_def put_le_outside BLOCK_SHIFT_def)

lemma set_wptr_outside: "a \<notin> wptr_block b \<Longrightarrow> afk_rb_set_wptr b w m a = m a"
  by (auto simp: afk_rb_set_wptr_def wptr_block_def put_le_outside)

lemma load_bytes_copy:
  "off + w \<le> n \<Longrightarrow>
   load_bytes (q + off) w (store_bytes q (load_bytes p n m) m') = load_bytes (p + off) w m"
  by (rule nth_equalityI) (simp_all add: load_bytes_def store_bytes_inside add.assoc)

lemma get_field_copy:
  "field_in f n \<Longrightarrow> get_field f q (store_bytes q (load_bytes p n m) m') = get_field f p m"
  by (simp add: get_field_def get_le_def field_in_def load_bytes_copy)

text \<open>Outside the frame and the write-pointer block nothing changes.\<close>

lemma afk_send_epic_frame:
  assumes lo: "layout_ok h" and v: "tx_ring_valid ep"
    and f: "sizeof_afk_qe + sizeof_epic_hdr h + sizeof_epic_sub_hdr h + length payload < 2 ^ 32"
    and l: "afk_send_epic_layout h ep (length payload) = Inr (ho, h2, w1)"
    and a: "a \<notin> (\<lambda>o'. buf (txbfr ep) + o') `
              frame_bytes (ho, h2, w1) (sizeof_epic_hdr h + sizeof_epic_sub_hdr h + length payload)"
    and b: "a \<notin> wptr_block (txbfr ep)"
  shows "mem (snd (afk_send_epic h ep ch tg etype ecat stype payload)) a = mem ep a"
proof -
  let ?b = "buf (txbfr ep)"
  from afk_send_epic_success(2) [OF v f l, of ch tg etype ecat stype]
  obtain w where m: "mem (snd (afk_send_epic h ep ch tg etype ecat stype payload)) =
      afk_rb_set_wptr (txbfr ep) w
       (store_bytes (?b + (w1 + sizeof_epic_hdr h + sizeof_epic_sub_hdr h)) payload
         (write_eshdr h (?b + (w1 + sizeof_epic_hdr h)) (length payload) ecat stype tg
           (write_ehdr h (?b + w1) (qe_seq ep)
             (case h2 of
                None \<Rightarrow> write_qe (?b + ho) (QE_MAGIC_IOP h)
                          (sizeof_epic_hdr h + sizeof_epic_sub_hdr h + length payload)
                          (u32 ch) (u32 etype) (mem ep)
              | Some o2 \<Rightarrow>
                  store_bytes (?b + o2)
                    (load_bytes (?b + ho) sizeof_afk_qe
                       (write_qe (?b + ho) (QE_MAGIC_IOP h)
                          (sizeof_epic_hdr h + sizeof_epic_sub_hdr h + length payload)
                          (u32 ch) (u32 etype) (mem ep)))
                    (write_qe (?b + ho) (QE_MAGIC_IOP h)
                          (sizeof_epic_hdr h + sizeof_epic_sub_hdr h + length payload)
                          (u32 ch) (u32 etype) (mem ep))))))"
    by blast
  from a have q: "a < ?b + ho \<or> ?b + ho + sizeof_afk_qe \<le> a"
    and e: "a < ?b + w1 \<or>
            ?b + w1 + sizeof_epic_hdr h + sizeof_epic_sub_hdr h + length payload \<le> a"
    and q2: "\<And>o2. h2 = Some o2 \<Longrightarrow> a < ?b + o2 \<or> ?b + o2 + sizeof_afk_qe \<le> a"
    by (auto simp: frame_bytes_def image_Un image_ivl_iff)
  show ?thesis
    unfolding m using q e q2 lo b
    by (auto simp: set_wptr_outside store_bytes_outside write_eshdr_outside write_ehdr_outside
        write_qe_outside split: option.split)
qed

lemma field_in_qe:
  "field_in qe_magic sizeof_afk_qe" "field_in qe_size sizeof_afk_qe"
  "field_in qe_channel sizeof_afk_qe" "field_in qe_type sizeof_afk_qe"
  by (simp_all add: field_in_def qe_magic_def qe_size_def qe_channel_def qe_type_def
      sizeof_afk_qe_def)

text \<open>What the body holds after a successful \<open>afk_send_epic\<close>.\<close>

lemma afk_send_epic_contents:
  assumes lo: "layout_ok h" and v: "tx_ring_valid ep"
    and f: "sizeof_afk_qe + sizeof_epic_hdr h + sizeof_epic_sub_hdr h + length payload < 2 ^ 32"
    and l: "afk_send_epic_layout h ep (length payload) = Inr (ho, h2, w1)"
  shows "field_in qf sizeof_afk_qe \<Longrightarrow>
      get_field qf (buf (txbfr ep) + ho)
        (mem (snd (afk_send_epic h ep ch tg etype ecat stype payload))) =
      get_field qf (buf (txbfr ep) + ho)
        (write_qe (buf (txbfr ep) + ho) (QE_MAGIC_IOP h)
           (sizeof_epic_hdr h + sizeof_epic_sub_hdr h + length payload)
           (u32 ch) (u32 etype) (mem ep))"
    and "field_in qf sizeof_afk_qe \<Longrightarrow> h2 \<noteq> None \<Longrightarrow>
      get_field qf (buf (txbfr ep))
        (mem (snd (afk_send_epic h ep ch tg etype ecat stype payload))) =
      get_field qf (buf (txbfr ep) + ho)
        (write_qe (buf (txbfr ep) + ho) (QE_MAGIC_IOP h)
           (sizeof_epic_hdr h + sizeof_epic_sub_hdr h + length payload)
           (u32 ch) (u32 etype) (mem ep))"
    and "load_bytes (buf (txbfr ep) + w1 + sizeof_epic_hdr h + sizeof_epic_sub_hdr h)
           (length payload) (mem (snd (afk_send_epic h ep ch tg etype ecat stype payload)))
         = payload"
    and "get_field (eshdr_inline_len h) (buf (txbfr ep) + w1 + sizeof_epic_hdr h)
           (mem (snd (afk_send_epic h ep ch tg etype ecat stype payload)))
         = (if ecat = EPIC_CAT_REPLY h then u16 (usize_sub (length payload) 4) else 0)"
proof -
  let ?b = "buf (txbfr ep)"
  let ?E = "sizeof_epic_hdr h"
  let ?S = "sizeof_epic_sub_hdr h"
  let ?q = "write_qe (?b + ho) (QE_MAGIC_IOP h) (?E + ?S + length payload)
              (u32 ch) (u32 etype) (mem ep)"
  let ?m2 = "case h2 of None \<Rightarrow> ?q
             | Some o2 \<Rightarrow> store_bytes (?b + o2) (load_bytes (?b + ho) sizeof_afk_qe ?q) ?q"
  let ?m3 = "write_ehdr h (?b + w1) (qe_seq ep) ?m2"
  let ?m4 = "write_eshdr h (?b + (w1 + ?E)) (length payload) ecat stype tg ?m3"
  let ?m5 = "store_bytes (?b + (w1 + ?E + ?S)) payload ?m4"
  let ?m' = "mem (snd (afk_send_epic h ep ch tg etype ecat stype payload))"
  from afk_send_epic_success(2) [OF v f l, of ch tg etype ecat stype]
  obtain w where m: "?m' = afk_rb_set_wptr (txbfr ep) w ?m5"
    by blast
  from v have r: "ring_ok (txbfr ep)"
    by (simp add: tx_ring_valid_def)
  note g = layout_in_body [OF v f l]
  have body: "?m' a = ?m5 a" if "?b \<le> a" for a
    unfolding m using r that by (rule set_wptr_body)
  have low: "?m5 a = ?m2 a" if "a < ?b + w1" for a
    using that lo
    by (simp add: store_bytes_outside write_eshdr_outside write_ehdr_outside)
  have high: "?m5 a = ?m2 a" if "?b + w1 + ?E + ?S + length payload \<le> a" for a
    using that lo
    by (simp add: store_bytes_outside write_eshdr_outside write_ehdr_outside)
  have hdr_keep: "?m' a = ?q a" if "?b + ho \<le> a" "a < ?b + ho + sizeof_afk_qe" for a
  proof (cases h2)
    case None
    with g(4) that have "a < ?b + w1" by simp
    from low [OF this] body [of a] that(1) None show ?thesis by simp
  next
    case (Some o2)
    with g(5) have o: "o2 = 0" "w1 = sizeof_afk_qe" "w1 + ?E + ?S + length payload \<le> ho"
      by simp_all
    with that have "?b + w1 + ?E + ?S + length payload \<le> a" by simp
    from high [OF this] body [of a] that Some o show ?thesis
      by (simp add: store_bytes_outside)
  qed
  show "get_field qf (?b + ho) ?m' = get_field qf (?b + ho) ?q" if "field_in qf sizeof_afk_qe"
    using that by (intro get_field_cong hdr_keep) (simp_all add: field_in_def)
  show "get_field qf ?b ?m' = get_field qf (?b + ho) ?q"
    if q: "field_in qf sizeof_afk_qe" and n: "h2 \<noteq> None"
  proof -
    from g(5) [OF n] have o: "h2 = Some 0" "w1 = sizeof_afk_qe" by simp_all
    have "?m' a = ?m2 a" if "?b \<le> a" "a < ?b + sizeof_afk_qe" for a
      using body [of a] low [of a] that o by simp
    then have "get_field qf ?b ?m' = get_field qf ?b ?m2"
      using q by (intro get_field_cong) (simp_all add: field_in_def)
    also have "\<dots> = get_field qf (?b + ho) ?q"
      using o get_field_copy [OF q, of ?b "?b + ho" ?q ?q] by simp
    finally show ?thesis .
  qed
  show "load_bytes (?b + w1 + ?E + ?S) (length payload) ?m' = payload"
  proof -
    have "load_bytes (?b + w1 + ?E + ?S) (length payload) ?m' =
          load_bytes (?b + w1 + ?E + ?S) (length payload) ?m5"
      by (intro load_bytes_cong body) simp
    then show ?thesis by (simp add: add.assoc)
  qed
  show "get_field (eshdr_inline_len h) (?b + w1 + ?E) ?m'
         = (if ecat = EPIC_CAT_REPLY h then u16 (usize_sub (length payload) 4) else 0)"
  proof -
    from lo have i: "field_in (eshdr_inline_len h) ?S" "2 \<le> snd (eshdr_inline_len h)"
      by (simp_all add: layout_ok_def)
    have "get_field (eshdr_inline_len h) (?b + w1 + ?E) ?m' =
          get_field (eshdr_inline_len h) (?b + w1 + ?E) ?m4"
      using i(1)
      by (intro get_field_cong) (simp_all add: field_in_def body store_bytes_outside)
    also have "\<dots> = (if ecat = EPIC_CAT_REPLY h then u16 (usize_sub (length payload) 4) else u16 0)
                      mod 256 ^ snd (eshdr_inline_len h)"
      using write_eshdr_inline_len [of h "?b + (w1 + ?E)" "length payload" ecat stype tg ?m3]
      by (simp add: add.assoc)
    also have "\<dots> = (if ecat = EPIC_CAT_REPLY h then u16 (usize_sub (length payload) 4) else 0)"
      using u16_mod_width [OF i(2)] by (simp add: u16_def)
    finally show ?thesis .
  qed
qed

lemma place_error: "afk_send_epic_place b r w e t = Inl x \<Longrightarrow> x = ENOMEM"
  by (auto simp: afk_send_epic_place_def split: if_splits)

lemma afk_send_epic_error:
  "afk_send_epic_layout h ep (length payload) = Inl x \<Longrightarrow>
   afk_send_epic h ep ch tg etype ecat stype payload = (Inl ENOMEM, ep)"
  using place_error [of _ _ _ _ _ x]
  by (auto simp: afk_send_epic_def afk_send_epic_layout_def Let_def)

lemma u16_usize_sub_4:
  "n < 2 ^ 32 \<Longrightarrow> u16 (usize_sub n 4) = (if 4 \<le> n then (n - 4) mod 2 ^ 16 else 2 ^ 16 - 4 + n)"
proof (cases "4 \<le> n")
  case True
  assume "n < 2 ^ 32"
  with True have "(n + 2 ^ 64 - 4) mod 2 ^ 64 = n - 4"
    by (simp add: mod_if)
  with True show ?thesis by (simp add: usize_sub_def u16_def)
next
  case False
  then consider "n = 0" | "n = 1" | "n = 2" | "n = 3" by linarith
  then show ?thesis
    by cases (simp_all add: usize_sub_def u16_def)
qed


lemma get_field_set_rptr:
  "ring_ok b \<Longrightarrow> buf b \<le> p \<Longrightarrow> get_field f p (afk_rb_set_rptr b x m) = get_field f p m"
  by (intro get_field_cong set_rptr_body) simp_all

lemma load_bytes_set_rptr:
  "ring_ok b \<Longrightarrow> buf b \<le> p \<Longrightarrow> load_bytes p n (afk_rb_set_rptr b x m) = load_bytes p n m"
  by (intro load_bytes_cong set_rptr_body) simp_all

lemma afk_send_epic_txbfr:
  "txbfr (snd (afk_send_epic h ep ch tg etype ecat stype payload)) = txbfr ep"
  by (simp add: afk_send_epic_def Let_def afk_send_def split: sum.split prod.split)

lemma afk_send_epic_Inr:
  assumes "fst (afk_send_epic h ep ch tg etype ecat stype payload) = Inr ()"
  shows "\<exists>p. afk_send_epic_layout h ep (length payload) = Inr p"
proof (cases "afk_send_epic_layout h ep (length payload)")
  case (Inl x)
  with assms show ?thesis by (simp add: afk_send_epic_def Let_def)
next
  case (Inr p)
  then show ?thesis by blast
qed

lemma layout_ok_example: "layout_ok afk_h_example"
  by (simp add: layout_ok_def field_in_def afk_h_example_def)

lemma txbfr_ep_ring [simp]: "txbfr (ep_ring r w) = ring_tx"
  by (simp add: ep_ring_def)

lemma ep_ring_valid:
  "r < 0x100 \<Longrightarrow> w < 0x100 \<Longrightarrow> r mod 64 = 0 \<Longrightarrow> w mod 64 = 0 \<Longrightarrow> tx_ring_valid (ep_ring r w)"
  using ep_ring_rptr [of r w] ep_ring_wptr [of w r]
  by (simp add: tx_ring_valid_def ring_ok_def ring_tx_def BLOCK_SHIFT_def)

lemma ep_ring_layout:
  "r < 0x100 \<Longrightarrow> w < 0x100 \<Longrightarrow> n < 0x1000 \<Longrightarrow>
   afk_send_epic_layout afk_h_example (ep_ring r w) n =
     afk_send_epic_place 0x100 r w (40 + n) (56 + n)"
  using ep_ring_rptr [of r w] ep_ring_wptr [of w r]
  by (simp add: afk_send_epic_layout_def total_size_def total_epic_size_def usize_def
      afk_h_example_def sizeof_afk_qe_def ring_tx_def)

subsection \<open>The EPIC headers of a frame\<close>
















section \<open>Placement: results\<close>

text \<open>
  C1.  In a valid ring state, for a frame whose total size is at most the body
  size, \<open>afk_send_epic\<close> either fails with \<open>-ENOMEM\<close> and changes nothing, or
  succeeds with a placement whose bytes (the queue-entry header, its copy when
  the frame wraps, both EPIC headers and the payload) all lie in
  \<open>[0, bufsz)\<close> and outside the reserved region between the read and the write
  pointer; apart from these bytes and the four bytes of the write-pointer block,
  the memory is unchanged.
\<close>

theorem afk_send_epic_frame_placement:
  assumes lo: "layout_ok h" and v: "tx_ring_valid ep"
    and t: "sizeof_afk_qe + sizeof_epic_hdr h + sizeof_epic_sub_hdr h + length payload
              \<le> bufsz (txbfr ep)"
  shows "afk_send_epic h ep ch tg etype ecat stype payload = (Inl ENOMEM, ep) \<or>
     (\<exists>p. afk_send_epic_layout h ep (length payload) = Inr p \<and>
          fst (afk_send_epic h ep ch tg etype ecat stype payload) = Inr () \<and>
          frame_bytes p (sizeof_epic_hdr h + sizeof_epic_sub_hdr h + length payload)
            \<subseteq> {0 ..< bufsz (txbfr ep)} \<and>
          frame_bytes p (sizeof_epic_hdr h + sizeof_epic_sub_hdr h + length payload) \<inter>
            reserved (afk_rb_get_rptr (mem ep) (txbfr ep)) (afk_rb_get_wptr (mem ep) (txbfr ep))
              (bufsz (txbfr ep)) = {} \<and>
          (\<forall>a. a \<notin> (\<lambda>o'. buf (txbfr ep) + o') `
                    frame_bytes p (sizeof_epic_hdr h + sizeof_epic_sub_hdr h + length payload) \<longrightarrow>
               a \<notin> wptr_block (txbfr ep) \<longrightarrow>
               mem (snd (afk_send_epic h ep ch tg etype ecat stype payload)) a = mem ep a))"
proof (cases "afk_send_epic_layout h ep (length payload)")
  case (Inl x)
  then show ?thesis by (simp add: afk_send_epic_error)
next
  case (Inr p)
  obtain ho h2 w1 where p: "p = (ho, h2, w1)" by (cases p)
  from v have "bufsz (txbfr ep) < 2 ^ 32" by (simp add: tx_ring_valid_def ring_ok_def)
  with t have f: "sizeof_afk_qe + sizeof_epic_hdr h + sizeof_epic_sub_hdr h + length payload
      < 2 ^ 32" by simp
  from Inr p have l: "afk_send_epic_layout h ep (length payload) = Inr (ho, h2, w1)" by simp
  note c = layout_cases [OF v f l]
  from v have r: "afk_rb_get_rptr (mem ep) (txbfr ep) < bufsz (txbfr ep)"
    by (simp add: tx_ring_valid_def)
  have 1: "frame_bytes p (sizeof_epic_hdr h + sizeof_epic_sub_hdr h + length payload)
            \<subseteq> {0 ..< bufsz (txbfr ep)}"
    using c r unfolding p frame_bytes_def by (auto split: if_splits)
  have 2: "frame_bytes p (sizeof_epic_hdr h + sizeof_epic_sub_hdr h + length payload) \<inter>
            reserved (afk_rb_get_rptr (mem ep) (txbfr ep)) (afk_rb_get_wptr (mem ep) (txbfr ep))
              (bufsz (txbfr ep)) = {}"
    using c r unfolding p frame_bytes_def reserved_def by (auto split: if_splits)
  have 3: "mem (snd (afk_send_epic h ep ch tg etype ecat stype payload)) a = mem ep a"
    if "a \<notin> (\<lambda>o'. buf (txbfr ep) + o') `
                    frame_bytes p (sizeof_epic_hdr h + sizeof_epic_sub_hdr h + length payload)"
      "a \<notin> wptr_block (txbfr ep)" for a
    using afk_send_epic_frame [OF lo v f l] that unfolding p by blast
  from afk_send_epic_success(1) [OF v f l] Inr 1 2 3 show ?thesis by blast
qed

theorem afk_send_epic_frame_placement_witness:
  "layout_ok afk_h_example \<and> tx_ring_valid (ep_ring 0 0) \<and>
   sizeof_afk_qe + sizeof_epic_hdr afk_h_example + sizeof_epic_sub_hdr afk_h_example +
     length (replicate 30 (7::byte)) \<le> bufsz (txbfr (ep_ring 0 0)) \<and>
   afk_send_epic afk_h_example (ep_ring 0 0) 5 0x0100 3 0x30 0xc0 (replicate 30 7)
     \<noteq> (Inl ENOMEM, ep_ring 0 0) \<and>
   (\<exists>p. afk_send_epic_layout afk_h_example (ep_ring 0 0) (length (replicate 30 (7::byte))) = Inr p \<and>
        frame_bytes p (sizeof_epic_hdr afk_h_example + sizeof_epic_sub_hdr afk_h_example +
                       length (replicate 30 (7::byte))) \<subseteq> {0 ..< bufsz (txbfr (ep_ring 0 0))} \<and>
        frame_bytes p (sizeof_epic_hdr afk_h_example + sizeof_epic_sub_hdr afk_h_example +
                       length (replicate 30 (7::byte))) \<inter>
          reserved (afk_rb_get_rptr (mem (ep_ring 0 0)) (txbfr (ep_ring 0 0)))
            (afk_rb_get_wptr (mem (ep_ring 0 0)) (txbfr (ep_ring 0 0)))
            (bufsz (txbfr (ep_ring 0 0))) = {})"
proof -
  have v: "tx_ring_valid (ep_ring 0 0)"
    by (simp add: ep_ring_valid)
  have t: "sizeof_afk_qe + sizeof_epic_hdr afk_h_example + sizeof_epic_sub_hdr afk_h_example +
     length (replicate 30 (7::byte)) \<le> bufsz (txbfr (ep_ring 0 0))"
    by (simp add: sizeof_afk_qe_def afk_h_example_def ring_tx_def)
  have l: "afk_send_epic_layout afk_h_example (ep_ring 0 0) (length (replicate 30 (7::byte)))
      = Inr (0, None, 16)"
    by (simp add: ep_ring_layout afk_send_epic_place_def usize_def u32_def sizeof_afk_qe_def)
  have n: "afk_send_epic afk_h_example (ep_ring 0 0) 5 0x0100 3 0x30 0xc0 (replicate 30 7)
     \<noteq> (Inl ENOMEM, ep_ring 0 0)"
    using l by (simp add: afk_send_epic_def Let_def)
  from afk_send_epic_frame_placement [OF layout_ok_example v t, of 5 "0x0100" 3 "0x30" "0xc0"] n
  have "\<exists>p. afk_send_epic_layout afk_h_example (ep_ring 0 0) (length (replicate 30 (7::byte))) = Inr p \<and>
        frame_bytes p (sizeof_epic_hdr afk_h_example + sizeof_epic_sub_hdr afk_h_example +
                       length (replicate 30 (7::byte))) \<subseteq> {0 ..< bufsz (txbfr (ep_ring 0 0))} \<and>
        frame_bytes p (sizeof_epic_hdr afk_h_example + sizeof_epic_sub_hdr afk_h_example +
                       length (replicate 30 (7::byte))) \<inter>
          reserved (afk_rb_get_rptr (mem (ep_ring 0 0)) (txbfr (ep_ring 0 0)))
            (afk_rb_get_wptr (mem (ep_ring 0 0)) (txbfr (ep_ring 0 0)))
            (bufsz (txbfr (ep_ring 0 0))) = {}"
    by blast
  with layout_ok_example v t n show ?thesis by blast
qed




section \<open>The sub-header: results\<close>

text \<open>
  C10, as amended.  In a frame built by \<open>afk_send_epic\<close>, the inline-length field
  of the sub-header holds the low 16 bits of the \<open>size_t\<close> difference
  \<open>payload_len - 4\<close> when the category is REPLY (so \<open>payload_len - 4\<close> itself
  when \<open>4 \<le> payload_len < 65540\<close>, and \<open>65532 + payload_len\<close> below 4), and 0
  for every other category.
\<close>

theorem afk_send_epic_inline_len:
  assumes "layout_ok h" and "tx_ring_valid ep"
    and "sizeof_afk_qe + sizeof_epic_hdr h + sizeof_epic_sub_hdr h + length payload < 2 ^ 32"
    and "afk_send_epic_layout h ep (length payload) = Inr (ho, h2, w1)"
  shows "fst (afk_send_epic h ep ch tg etype ecat stype payload) = Inr () \<and>
         get_field (eshdr_inline_len h) (buf (txbfr ep) + w1 + sizeof_epic_hdr h)
           (mem (snd (afk_send_epic h ep ch tg etype ecat stype payload))) =
           (if ecat = EPIC_CAT_REPLY h
            then (if 4 \<le> length payload then (length payload - 4) mod 2 ^ 16
                  else 2 ^ 16 - 4 + length payload)
            else 0)"
proof -
  from assms(3) have "length payload < 2 ^ 32" by simp
  from u16_usize_sub_4 [OF this] afk_send_epic_contents(4) [OF assms, of ch tg etype ecat stype]
    afk_send_epic_success(1) [OF assms(2-4), of ch tg etype ecat stype]
  show ?thesis by simp
qed

theorem afk_send_epic_inline_len_witness:
  "layout_ok afk_h_example \<and> tx_ring_valid (ep_ring 0 0) \<and>
   sizeof_afk_qe + sizeof_epic_hdr afk_h_example + sizeof_epic_sub_hdr afk_h_example +
     length (replicate 30 (7::byte)) < 2 ^ 32 \<and>
   afk_send_epic_layout afk_h_example (ep_ring 0 0) (length (replicate 30 (7::byte)))
      = Inr (0, None, 16) \<and>
   get_field (eshdr_inline_len afk_h_example)
     (buf (txbfr (ep_ring 0 0)) + 16 + sizeof_epic_hdr afk_h_example)
     (mem (snd (afk_send_epic afk_h_example (ep_ring 0 0) 5 0x0100 8
                  (EPIC_CAT_REPLY afk_h_example) 0xc0 (replicate 30 7)))) = 26 \<and>
   get_field (eshdr_inline_len afk_h_example)
     (buf (txbfr (ep_ring 0 0)) + 16 + sizeof_epic_hdr afk_h_example)
     (mem (snd (afk_send_epic afk_h_example (ep_ring 0 0) 5 0x0100 3
                  (EPIC_CAT_COMMAND afk_h_example) 0xc0 (replicate 30 7)))) = 0"
proof -
  have v: "tx_ring_valid (ep_ring 0 0)"
    by (simp add: ep_ring_valid)
  have t: "sizeof_afk_qe + sizeof_epic_hdr afk_h_example + sizeof_epic_sub_hdr afk_h_example +
     length (replicate 30 (7::byte)) < 2 ^ 32"
    by (simp add: sizeof_afk_qe_def afk_h_example_def)
  have l: "afk_send_epic_layout afk_h_example (ep_ring 0 0) (length (replicate 30 (7::byte)))
      = Inr (0, None, 16)"
    by (simp add: ep_ring_layout afk_send_epic_place_def usize_def u32_def sizeof_afk_qe_def)
  have c: "EPIC_CAT_COMMAND afk_h_example \<noteq> EPIC_CAT_REPLY afk_h_example"
    by (simp add: afk_h_example_def)
  from afk_send_epic_inline_len [OF layout_ok_example v t l, of 5 "0x0100" 8
         "EPIC_CAT_REPLY afk_h_example" "0xc0"]
       afk_send_epic_inline_len [OF layout_ok_example v t l, of 5 "0x0100" 3
         "EPIC_CAT_COMMAND afk_h_example" "0xc0"]
       layout_ok_example v t l c
  show ?thesis by simp
qed

text \<open>
  The claim as stated fails for a REPLY frame with an empty payload: the field
  holds 65532, which is not the payload length minus 4.
\<close>

theorem afk_send_epic_inline_len_counterexample:
  "fst (afk_send_epic afk_h_example (ep_ring 0 0) 5 0x0100 8
          (EPIC_CAT_REPLY afk_h_example) 0xc0 []) = Inr () \<and>
   get_field (eshdr_inline_len afk_h_example)
     (buf (txbfr (ep_ring 0 0)) + 16 + sizeof_epic_hdr afk_h_example)
     (mem (snd (afk_send_epic afk_h_example (ep_ring 0 0) 5 0x0100 8
                  (EPIC_CAT_REPLY afk_h_example) 0xc0 []))) = 65532 \<and>
   int 65532 \<noteq> int (length ([] :: byte list)) - 4"
proof -
  have v: "tx_ring_valid (ep_ring 0 0)"
    by (simp add: ep_ring_valid)
  have t: "sizeof_afk_qe + sizeof_epic_hdr afk_h_example + sizeof_epic_sub_hdr afk_h_example +
     length ([] :: byte list) < 2 ^ 32"
    by (simp add: sizeof_afk_qe_def afk_h_example_def)
  have l: "afk_send_epic_layout afk_h_example (ep_ring 0 0) (length ([] :: byte list))
      = Inr (0, None, 16)"
    by (simp add: ep_ring_layout afk_send_epic_place_def usize_def u32_def sizeof_afk_qe_def)
  from afk_send_epic_contents(4) [OF layout_ok_example v t l, of 5 "0x0100" 8
         "EPIC_CAT_REPLY afk_h_example" "0xc0"]
       afk_send_epic_success(1) [OF v t l, of 5 "0x0100" 8 "EPIC_CAT_REPLY afk_h_example" "0xc0"]
  show ?thesis by (simp add: usize_sub_def u16_def)
qed

section \<open>Round trip: results\<close>

text \<open>\<open>afk_recv\<close> decodes the entry at the read pointer once its three tests pass.\<close>

lemma afk_recv_decodes:
  assumes "ready (rxbfr ep)"
    and "afk_rb_get_rptr (mem ep) (rxbfr ep) \<noteq> afk_rb_get_wptr (mem ep) (rxbfr ep)"
    and "afk_rb_get_rptr (mem ep) (rxbfr ep) \<le> usize_sub (bufsz (rxbfr ep)) sizeof_afk_qe"
  shows "afk_recv h ep = afk_recv_entry h ep (afk_rb_get_rptr (mem ep) (rxbfr ep))"
  using assms by (simp add: afk_recv_def Let_def)

text \<open>
  Decoding after a successful send, for any reader whose RX ring is the sender's
  TX ring and whose memory agrees with the sender's on the body.
\<close>

lemma afk_recv_entry_after_send:
  assumes lo: "layout_ok h" and v: "tx_ring_valid ep"
    and t: "sizeof_afk_qe + sizeof_epic_hdr h + sizeof_epic_sub_hdr h + length payload
              \<le> bufsz (txbfr ep)"
    and s: "fst (afk_send_epic h ep ch tg etype ecat stype payload) = Inr ()"
    and rx: "rxbfr rd = txbfr ep"
    and ag: "\<And>a. buf (txbfr ep) \<le> a \<Longrightarrow>
               mem rd a = mem (snd (afk_send_epic h ep ch tg etype ecat stype payload)) a"
  shows "\<exists>data size.
     fst (afk_recv_entry h rd (afk_rb_get_wptr (mem ep) (txbfr ep)))
       = Some (u32 ch, u32 etype, data, size) \<and>
     afk_recv_handle_payload h
       (mem (snd (afk_recv_entry h rd (afk_rb_get_wptr (mem ep) (txbfr ep))))) data size
       = Some payload"
proof -
  let ?w = "afk_rb_get_wptr (mem ep) (txbfr ep)"
  let ?r = "afk_rb_get_rptr (mem ep) (txbfr ep)"
  let ?E = "sizeof_epic_hdr h"
  let ?S = "sizeof_epic_sub_hdr h"
  let ?e = "?E + ?S + length payload"
  let ?b = "buf (txbfr ep)"
  let ?ep' = "snd (afk_send_epic h ep ch tg etype ecat stype payload)"
  let ?m' = "mem ?ep'"
  let ?mr = "mem rd"
  from v have rk: "ring_ok (txbfr ep)" and bs: "bufsz (txbfr ep) < 2 ^ 32"
    and rb: "?r < bufsz (txbfr ep)" and wb: "?w < bufsz (txbfr ep)"
    and bs22: "bufsz (txbfr ep) < 2 ^ 22"
    by (simp_all add: tx_ring_valid_def ring_ok_def)
  from t bs have f: "sizeof_afk_qe + ?E + ?S + length payload < 2 ^ 32" by simp
  from afk_send_epic_Inr [OF s] obtain ho h2 w1
    where l: "afk_send_epic_layout h ep (length payload) = Inr (ho, h2, w1)"
    by (metis prod_cases3)
  note c = layout_cases [OF v f l]
  then have ho: "ho = ?w" by simp
  note g = afk_send_epic_contents [OF lo v f l, where ch = ch and tg = tg and etype = etype
        and ecat = ecat and stype = stype]
  have m: "u32 (QE_MAGIC_IOP h) = QE_MAGIC_IOP h" "u32 ?e = ?e"
    using lo f by (simp_all add: layout_ok_def u32_id)
  have q1: "get_field qe_magic (?b + ?w) ?m' = QE_MAGIC_IOP h"
    "get_field qe_size (?b + ?w) ?m' = ?e"
    "get_field qe_channel (?b + ?w) ?m' = u32 ch"
    "get_field qe_type (?b + ?w) ?m' = u32 etype"
    using g(1) [of qe_magic] g(1) [of qe_size] g(1) [of qe_channel] g(1) [of qe_type]
    by (simp_all add: ho field_in_qe write_qe_fields m)
  have gf: "get_field fl p ?mr = get_field fl p ?m'" if "?b \<le> p" for fl p
    using that by (intro get_field_cong ag) simp
  have lb: "load_bytes p n ?mr = load_bytes p n ?m'" if "?b \<le> p" for p n
    using that by (intro load_bytes_cong ag) simp
  have r1: "get_field qe_magic (?b + ?w) ?mr = QE_MAGIC_IOP h"
    "get_field qe_size (?b + ?w) ?mr = ?e"
    "get_field qe_channel (?b + ?w) ?mr = u32 ch"
    "get_field qe_type (?b + ?w) ?mr = u32 etype"
    by (simp_all add: gf q1)
  have us: "usize (?E + ?S) = ?E + ?S"
    using f by (simp add: usize_def)
  have al: "u32 (?w + ?e) = ?w + ?e"
    using wb bs22 t by (simp add: u32_def)
  show ?thesis
  proof (cases h2)
    case None
    with c have fit: "?w + sizeof_afk_qe + ?e \<le> bufsz (txbfr ep)" and w1: "w1 = ?w + sizeof_afk_qe"
      using rb by (auto split: if_splits)
    have "load_bytes (?b + ?w + sizeof_afk_qe + ?E + ?S) (length payload) ?m' = payload"
      using g(3) by (simp add: w1 add.assoc)
    then have pl: "load_bytes (?b + ?w + sizeof_afk_qe + ?E + ?S) (length payload) ?mr = payload"
      by (simp add: lb)
    have "fst (afk_recv_entry h rd ?w) = Some (u32 ch, u32 etype, ?b + ?w + sizeof_afk_qe, ?e)"
      using fit by (simp add: afk_recv_entry_def Let_def rx r1 al)
    moreover have "afk_recv_handle_payload h (mem (snd (afk_recv_entry h rd ?w)))
        (?b + ?w + sizeof_afk_qe) ?e = Some payload"
      using fit rk pl
      by (simp add: afk_recv_entry_def Let_def rx r1 al afk_recv_handle_payload_def us
          load_bytes_set_rptr)
    ultimately show ?thesis
      by blast
  next
    case (Some o2)
    with c have wr: "bufsz (txbfr ep) < ?w + sizeof_afk_qe + ?e" and w1: "w1 = sizeof_afk_qe"
      and fr: "sizeof_afk_qe + ?e \<le> ?r" and h0: "h2 \<noteq> None"
      by auto
    from fr rb have fb: "sizeof_afk_qe + ?e \<le> bufsz (txbfr ep)" by simp
    have q2: "get_field qe_magic ?b ?m' = QE_MAGIC_IOP h"
      "get_field qe_size ?b ?m' = ?e"
      "get_field qe_channel ?b ?m' = u32 ch"
      "get_field qe_type ?b ?m' = u32 etype"
      using g(2) [of qe_magic] g(2) [of qe_size] g(2) [of qe_channel] g(2) [of qe_type] h0
      by (simp_all add: field_in_qe write_qe_fields m)
    have r2: "get_field qe_magic ?b ?mr = QE_MAGIC_IOP h"
      "get_field qe_size ?b ?mr = ?e"
      "get_field qe_channel ?b ?mr = u32 ch"
      "get_field qe_type ?b ?mr = u32 etype"
      by (simp_all add: gf q2)
    have "load_bytes (?b + sizeof_afk_qe + ?E + ?S) (length payload) ?m' = payload"
      using g(3) by (simp add: w1 add.assoc)
    then have pl: "load_bytes (?b + sizeof_afk_qe + ?E + ?S) (length payload) ?mr = payload"
      by (simp add: lb)
    have e32: "u32 ?e = ?e" by (rule m(2))
    have "fst (afk_recv_entry h rd ?w) = Some (u32 ch, u32 etype, ?b + sizeof_afk_qe, ?e)"
      using wr fb rk
      by (simp add: afk_recv_entry_def Let_def rx r1 r2 al e32 get_field_set_rptr)
    moreover have "afk_recv_handle_payload h (mem (snd (afk_recv_entry h rd ?w)))
        (?b + sizeof_afk_qe) ?e = Some payload"
      using wr fb rk pl
      by (simp add: afk_recv_entry_def Let_def rx r1 r2 al e32 afk_recv_handle_payload_def us
          load_bytes_set_rptr get_field_set_rptr)
    ultimately show ?thesis
      by blast
  qed
qed



text \<open>
  C8.  In a valid ring state, for a frame whose total size is at most the body
  size: when \<open>afk_send_epic\<close> succeeds, decoding the ring at the offset where the
  entry was placed (the write pointer before the call) hands \<open>afk_recv_handle\<close>
  the channel and the type that were sent, as 32-bit values, and the payload
  that \<open>afk_recv_handle\<close> finds behind the two EPIC headers is the payload that
  was sent.
\<close>

theorem afk_send_epic_recv_roundtrip:
  assumes lo: "layout_ok h" and v: "tx_ring_valid ep"
    and t: "sizeof_afk_qe + sizeof_epic_hdr h + sizeof_epic_sub_hdr h + length payload
              \<le> bufsz (txbfr ep)"
    and s: "fst (afk_send_epic h ep ch tg etype ecat stype payload) = Inr ()"
  shows "\<exists>data size.
     fst (afk_recv_entry h
            ((snd (afk_send_epic h ep ch tg etype ecat stype payload))
               \<lparr>rxbfr := txbfr (snd (afk_send_epic h ep ch tg etype ecat stype payload))\<rparr>)
            (afk_rb_get_wptr (mem ep) (txbfr ep)))
       = Some (u32 ch, u32 etype, data, size) \<and>
     afk_recv_handle_payload h
       (mem (snd (afk_recv_entry h
            ((snd (afk_send_epic h ep ch tg etype ecat stype payload))
               \<lparr>rxbfr := txbfr (snd (afk_send_epic h ep ch tg etype ecat stype payload))\<rparr>)
            (afk_rb_get_wptr (mem ep) (txbfr ep)))))
       data size = Some payload"
  using afk_recv_entry_after_send [OF lo v t s,
      of "(snd (afk_send_epic h ep ch tg etype ecat stype payload))
            \<lparr>rxbfr := txbfr (snd (afk_send_epic h ep ch tg etype ecat stype payload))\<rparr>"]
  by (simp add: afk_send_epic_txbfr)

theorem afk_send_epic_recv_roundtrip_witness:
  "layout_ok afk_h_example \<and> tx_ring_valid (ep_ring 0x80 0xc0) \<and>
   sizeof_afk_qe + sizeof_epic_hdr afk_h_example + sizeof_epic_sub_hdr afk_h_example +
     length (replicate 30 (7::byte)) \<le> bufsz (txbfr (ep_ring 0x80 0xc0)) \<and>
   fst (afk_send_epic afk_h_example (ep_ring 0x80 0xc0) 5 0x0100 3 0x30 0xc0 (replicate 30 7))
     = Inr () \<and>
   (\<exists>data size.
     fst (afk_recv_entry afk_h_example
            ((snd (afk_send_epic afk_h_example (ep_ring 0x80 0xc0) 5 0x0100 3 0x30 0xc0
                     (replicate 30 7)))
               \<lparr>rxbfr := txbfr (snd (afk_send_epic afk_h_example (ep_ring 0x80 0xc0) 5 0x0100 3
                                        0x30 0xc0 (replicate 30 7)))\<rparr>)
            0xc0)
       = Some (5, 3, data, size) \<and>
     afk_recv_handle_payload afk_h_example
       (mem (snd (afk_recv_entry afk_h_example
            ((snd (afk_send_epic afk_h_example (ep_ring 0x80 0xc0) 5 0x0100 3 0x30 0xc0
                     (replicate 30 7)))
               \<lparr>rxbfr := txbfr (snd (afk_send_epic afk_h_example (ep_ring 0x80 0xc0) 5 0x0100 3
                                        0x30 0xc0 (replicate 30 7)))\<rparr>)
            0xc0)))
       data size = Some (replicate 30 7))"
proof -
  have v: "tx_ring_valid (ep_ring 0x80 0xc0)"
    by (simp add: ep_ring_valid)
  have w: "afk_rb_get_wptr (mem (ep_ring 0x80 0xc0)) (txbfr (ep_ring 0x80 0xc0)) = 0xc0"
    using ep_ring_wptr [of "0xc0" "0x80"] by simp
  have t: "sizeof_afk_qe + sizeof_epic_hdr afk_h_example + sizeof_epic_sub_hdr afk_h_example +
     length (replicate 30 (7::byte)) \<le> bufsz (txbfr (ep_ring 0x80 0xc0))"
    by (simp add: sizeof_afk_qe_def afk_h_example_def ring_tx_def)
  have l: "afk_send_epic_layout afk_h_example (ep_ring 0x80 0xc0) (length (replicate 30 (7::byte)))
      = Inr (0xc0, Some 0, 16)"
    by (simp add: ep_ring_layout afk_send_epic_place_def usize_def u32_def sizeof_afk_qe_def)
  have s: "fst (afk_send_epic afk_h_example (ep_ring 0x80 0xc0) 5 0x0100 3 0x30 0xc0
                  (replicate 30 7)) = Inr ()"
    using l by (simp add: afk_send_epic_def Let_def)
  from afk_send_epic_recv_roundtrip [OF layout_ok_example v t s] layout_ok_example v t s
  show ?thesis
    unfolding w by (simp add: u32_def)
qed

text \<open>
  The same through the whole of \<open>afk_recv\<close>, for a reader that has consumed
  everything before the entry, provided the published write pointer differs from
  the offset of the entry: when the two are equal, \<open>afk_recv\<close> takes the ring
  for empty and returns before it decodes.
\<close>

lemma usize_sub_ge: "c \<le> b \<Longrightarrow> b < 2 ^ 64 \<Longrightarrow> usize_sub b c = b - c"
proof -
  assume a: "c \<le> b" "b < 2 ^ 64"
  then have c: "c mod 2 ^ 64 = c"
    by simp
  from a have "b + 2 ^ 64 - c = (b - c) + 2 ^ 64"
    by simp
  then have "(b + 2 ^ 64 - c) mod 2 ^ 64 = (b - c) mod 2 ^ 64"
    by (simp only: mod_add_self2)
  with a show ?thesis
    by (simp add: usize_sub_def c del: One_nat_def)
qed

lemma afk_recv_after_send:
  assumes lo: "layout_ok h" and v: "tx_ring_valid ep"
    and t: "sizeof_afk_qe + sizeof_epic_hdr h + sizeof_epic_sub_hdr h + length payload
              \<le> bufsz (txbfr ep)"
    and s: "fst (afk_send_epic h ep ch tg etype ecat stype payload) = Inr ()"
    and rdy: "ready (txbfr ep)"
    and rd: "rd = (snd (afk_send_epic h ep ch tg etype ecat stype payload))
               \<lparr>rxbfr := txbfr ep,
                mem := afk_rb_set_rptr (txbfr ep) (afk_rb_get_wptr (mem ep) (txbfr ep))
                         (mem (snd (afk_send_epic h ep ch tg etype ecat stype payload)))\<rparr>"
    and ne: "afk_rb_get_wptr (mem (snd (afk_send_epic h ep ch tg etype ecat stype payload)))
               (txbfr ep) \<noteq> afk_rb_get_wptr (mem ep) (txbfr ep)"
  shows "\<exists>data size.
     fst (afk_recv h rd) = Some (u32 ch, u32 etype, data, size) \<and>
     afk_recv_handle_payload h (mem (snd (afk_recv h rd))) data size = Some payload"
proof -
  let ?w = "afk_rb_get_wptr (mem ep) (txbfr ep)"
  let ?m' = "mem (snd (afk_send_epic h ep ch tg etype ecat stype payload))"
  from v have rk: "ring_ok (txbfr ep)" and wb: "?w < bufsz (txbfr ep)"
    and bs: "bufsz (txbfr ep) < 2 ^ 22"
    by (simp_all add: tx_ring_valid_def ring_ok_def)
  from t bs have f: "sizeof_afk_qe + sizeof_epic_hdr h + sizeof_epic_sub_hdr h + length payload
      < 2 ^ 32" by simp
  from afk_send_epic_Inr [OF s] obtain ho h2 w1
    where l: "afk_send_epic_layout h ep (length payload) = Inr (ho, h2, w1)"
    by (metis prod_cases3)
  from layout_cases [OF v f l] layout_in_body(1) [OF v f l]
  have fit: "?w + sizeof_afk_qe \<le> bufsz (txbfr ep)" by simp
  have rx: "rxbfr rd = txbfr ep"
    by (simp add: rd)
  have ag: "mem rd a = ?m' a" if "buf (txbfr ep) \<le> a" for a
    using rk that by (simp add: rd set_rptr_body)
  from wb bs have "?w < 2 ^ 32" by simp
  then have r: "afk_rb_get_rptr (mem rd) (txbfr ep) = ?w"
    by (simp add: rd afk_rb_get_rptr_def afk_rb_set_rptr_def get_put_le_same)
  have w: "afk_rb_get_wptr (mem rd) (txbfr ep) = afk_rb_get_wptr ?m' (txbfr ep)"
    using rk
    by (simp add: rd afk_rb_get_wptr_def afk_rb_set_rptr_def get_put_le_disjoint ring_ok_def
        BLOCK_SHIFT_def)
  from fit bs have "usize_sub (bufsz (txbfr ep)) sizeof_afk_qe = bufsz (txbfr ep) - sizeof_afk_qe"
    by (intro usize_sub_ge) simp_all
  with fit have u: "?w \<le> usize_sub (bufsz (txbfr ep)) sizeof_afk_qe"
    by simp
  have "afk_recv h rd = afk_recv_entry h rd ?w"
    using afk_recv_decodes [of rd h] rdy ne u by (simp add: r w rx)
  with afk_recv_entry_after_send [OF lo v t s rx ag] show ?thesis
    by simp
qed

section \<open>Synchronous commands: results\<close>

lemma tag_low_byte: "(u16 (k * 256) OR (i mod 256)) mod 256 = i mod 256"
proof -
  have "take_bit 8 (u16 (k * 256) OR (i mod 256)) =
        take_bit 8 (u16 (k * 256)) OR take_bit 8 (i mod 256)"
    by (simp add: take_bit_or)
  moreover have "take_bit 8 (u16 (k * 256)) = 0"
    by (simp add: take_bit_eq_mod u16_def mod_mod_cancel)
  ultimately show ?thesis
    by (simp add: take_bit_eq_mod)
qed

lemma find_Some_less:
  "find P [0 ..< n] = Some i \<Longrightarrow> i < n \<and> P i"
  by (auto simp: find_Some_iff)

lemma afk_send_epic_other_fields:
  "services (snd (afk_send_epic h ep ch tg etype ecat stype payload)) = services ep"
  "num_channels (snd (afk_send_epic h ep ch tg etype ecat stype payload)) = num_channels ep"
  "dma_frees (snd (afk_send_epic h ep ch tg etype ecat stype payload)) = dma_frees ep"
  "dma_allocs (snd (afk_send_epic h ep ch tg etype ecat stype payload)) = dma_allocs ep"
  "completed (snd (afk_send_epic h ep ch tg etype ecat stype payload)) = completed ep"
  by (simp_all add: afk_send_epic_def Let_def afk_send_def split: sum.split prod.split)

lemma find_service_cong:
  assumes "num_channels ep' = num_channels ep"
    and "\<And>j. enabled (services ep' j) = enabled (services ep j) \<and>
              channel (services ep' j) = channel (services ep j)"
  shows "afk_epic_find_service ep' ch = afk_epic_find_service ep ch"
proof -
  have "(\<lambda>j. enabled (services ep' j) \<and> channel (services ep' j) = ch) =
        (\<lambda>j. enabled (services ep j) \<and> channel (services ep j) = ch)"
    by (rule ext) (simp add: assms(2))
  with assms(1) show ?thesis
    by (simp add: afk_epic_find_service_def)
qed

text \<open>The state in which \<open>afk_send_command\<close> starts to wait.\<close>

lemma afk_send_command_submit_Inr:
  assumes "afk_send_command_submit h ep si type payload output_len compl rx_alloc tx_alloc
             = (Inr l, ep1)"
  shows "l_idx l < MAX_PENDING_CMDS h"
    and "l_tag l mod 256 = l_idx l mod 256"
    and "cmds (services ep1 si) (l_idx l) =
           (cmds (services ep si) (l_idx l))
             \<lparr>tag := l_tag l, rxbuf := l_rxbuf l, txbuf := l_txbuf l,
              rxbuf_dma := snd (the rx_alloc), txbuf_dma := snd (the tx_alloc),
              rxlen := output_len, txlen := length payload,
              free_on_ack := False, cmd_done := False, completion := Some compl\<rparr>"
    and "cmd_map (services ep1 si) (l_idx l)"
    and "released (services ep1 si) = released (services ep si)"
    and "dma_frees ep1 = dma_frees ep"
    and "completed ep1 = completed ep"
    and "num_channels ep1 = num_channels ep"
    and "afk_epic_find_service ep1 ch = afk_epic_find_service ep ch"
proof -
  from assms obtain rxb rxd txb txd idx where
    a: "rx_alloc = Some (rxb, rxd)" "tx_alloc = Some (txb, txd)"
      "bitmap_find_free_region (cmd_map (services ep si)) (MAX_PENDING_CMDS h) = Some idx"
    by (auto simp: afk_send_command_submit_def Let_def split: option.splits prod.splits)
  let ?tg = "u16 ((cmd_tag (services ep si) mod 256) * 256) OR (idx mod 256)"
  let ?ep3 = "upd_service si
     (\<lambda>s. upd_cmd idx
        (\<lambda>c. c\<lparr>tag := ?tg, rxbuf := rxb, txbuf := txb,
               rxbuf_dma := rxd, txbuf_dma := txd,
               rxlen := output_len, txlen := length payload,
               free_on_ack := False, cmd_done := False,
               completion := Some compl\<rparr>)
        (s\<lparr>cmd_map := (cmd_map s)(idx := True), cmd_tag := cmd_tag s + 1\<rparr>))
     (ep\<lparr>dma_allocs := dma_allocs ep @ [output_len],
         dma_allocs := dma_allocs (ep\<lparr>dma_allocs := dma_allocs ep @ [output_len]\<rparr>)
                         @ [length payload],
         mem := store_bytes txb payload (mem ep)\<rparr>)"
  let ?snd = "afk_send_epic h ?ep3 (channel (services ep si)) ?tg (EPIC_TYPE_COMMAND h)
                (EPIC_CAT_COMMAND h) type
                (epic_cmd_bytes h rxd output_len txd (length payload))"
  from assms a have l: "l = \<lparr>l_idx = idx, l_tag = ?tg, l_rxbuf = rxb, l_txbuf = txb\<rparr>"
    and e: "ep1 = snd ?snd"
    by (auto simp: afk_send_command_submit_def Let_def split: prod.splits sum.splits)
  from a(3) have i: "idx < MAX_PENDING_CMDS h"
    unfolding bitmap_find_free_region_def by (auto dest: find_Some_less)
  show "l_idx l < MAX_PENDING_CMDS h"
    using i l by simp
  show "l_tag l mod 256 = l_idx l mod 256"
    using l by (simp add: tag_low_byte)
  show "cmds (services ep1 si) (l_idx l) =
           (cmds (services ep si) (l_idx l))
             \<lparr>tag := l_tag l, rxbuf := l_rxbuf l, txbuf := l_txbuf l,
              rxbuf_dma := snd (the rx_alloc), txbuf_dma := snd (the tx_alloc),
              rxlen := output_len, txlen := length payload,
              free_on_ack := False, cmd_done := False, completion := Some compl\<rparr>"
    unfolding e afk_send_epic_other_fields l using a
    by (simp add: upd_service_def upd_cmd_def)
  show "cmd_map (services ep1 si) (l_idx l)"
    unfolding e afk_send_epic_other_fields l
    by (simp add: upd_service_def upd_cmd_def)
  show "released (services ep1 si) = released (services ep si)"
    unfolding e afk_send_epic_other_fields
    by (simp add: upd_service_def upd_cmd_def)
  show "dma_frees ep1 = dma_frees ep"
    unfolding e afk_send_epic_other_fields
    by (simp add: upd_service_def)
  show "completed ep1 = completed ep"
    unfolding e afk_send_epic_other_fields
    by (simp add: upd_service_def)
  show n: "num_channels ep1 = num_channels ep"
    unfolding e afk_send_epic_other_fields
    by (simp add: upd_service_def)
  show "afk_epic_find_service ep1 ch = afk_epic_find_service ep ch"
  proof (rule find_service_cong [OF n])
    fix j
    show "enabled (services ep1 j) = enabled (services ep j) \<and>
          channel (services ep1 j) = channel (services ep j)"
      unfolding e afk_send_epic_other_fields
      by (simp add: upd_service_def upd_cmd_def)
  qed
qed

lemma find_service_upd_cmd:
  "afk_epic_find_service (upd_service si (upd_cmd i f) ep) ch = afk_epic_find_service ep ch"
  by (rule find_service_cong) (simp_all add: upd_service_def upd_cmd_def)

lemma get_le_store_disjoint:
  "a + n \<le> b \<or> b + length bs \<le> a \<Longrightarrow> get_le n a (store_bytes b bs m) = get_le n a m"
  by (simp add: get_le_def load_store_disjoint)

lemma afk_send_epic_fst:
  "afk_send_epic_layout h ep (length payload) = Inr p \<Longrightarrow>
   fst (afk_send_epic h ep ch tg etype ecat stype payload) = Inr ()"
  by (cases p) (simp add: afk_send_epic_def Let_def)

text \<open>When a slot is free and the command frame can be placed, the command is submitted.\<close>

lemma afk_send_command_submit_ok:
  assumes b: "bitmap_find_free_region (cmd_map (services ep si)) (MAX_PENDING_CMDS h) = Some idx"
    and p: "afk_send_epic_layout h (ep\<lparr>mem := store_bytes txb payload (mem ep)\<rparr>)
              (sizeof_epic_cmd h) = Inr p"
  shows "fst (afk_send_command_submit h ep si type payload output_len compl
                (Some (rxb, rxd)) (Some (txb, txd))) =
         Inr \<lparr>l_idx = idx,
              l_tag = u16 ((cmd_tag (services ep si) mod 256) * 256) OR (idx mod 256),
              l_rxbuf = rxb, l_txbuf = txb\<rparr>"
proof -
  let ?tg = "u16 ((cmd_tag (services ep si) mod 256) * 256) OR (idx mod 256)"
  let ?cmd = "epic_cmd_bytes h rxd output_len txd (length payload)"
  have n: "length ?cmd = sizeof_epic_cmd h"
    by (simp add: epic_cmd_bytes_def)
  have ok: "fst (afk_send_epic h ep3 ch ?tg et ec type ?cmd) = Inr ()"
    if "txbfr ep3 = txbfr ep" "mem ep3 = store_bytes txb payload (mem ep)" for ep3 ch et ec
  proof (rule afk_send_epic_fst)
    show "afk_send_epic_layout h ep3 (length ?cmd) = Inr p"
      using p that by (simp add: n afk_send_epic_layout_def)
  qed
  have "afk_send_epic h
        (ep\<lparr>dma_allocs := A, mem := store_bytes txb payload (mem ep), services := S\<rparr>)
        ch ?tg et ec type ?cmd \<noteq> (Inl x, y)" for A S ch et ec x y
  proof
    assume a: "afk_send_epic h
        (ep\<lparr>dma_allocs := A, mem := store_bytes txb payload (mem ep), services := S\<rparr>)
        ch ?tg et ec type ?cmd = (Inl x, y)"
    have "fst (afk_send_epic h
        (ep\<lparr>dma_allocs := A, mem := store_bytes txb payload (mem ep), services := S\<rparr>)
        ch ?tg et ec type ?cmd) = Inr ()"
      by (rule ok) simp_all
    with a show False by simp
  qed
  then show ?thesis
    using b
    by (simp add: afk_send_command_submit_def Let_def upd_service_def
        split: prod.split sum.split)
qed

text \<open>
  C2.  A command has been submitted and the wait has timed out.  The two
  sections under the service lock, the recheck in \<open>afk_send_command\<close> and the
  body of \<open>afk_recv_handle_reply\<close>, run in one of two orders.

  If the reply is handled first (\<open>early\<close>), the recheck sees the done flag and
  the caller returns success; the caller frees the TX and the RX buffer and
  releases the tag slot, once each, and the handler frees nothing.

  If the recheck comes first (\<open>late\<close>), the caller returns \<open>-ETIMEDOUT\<close> with
  the completion pointer cleared and \<open>free_on_ack\<close> set, and frees nothing; the
  handler of the reply that arrives afterwards frees the RX and the TX buffer and
  releases the tag slot, once each, and signals no completion.
\<close>

theorem afk_send_command_timeout_race:
  assumes sub: "afk_send_command_submit h ep si type payload output_len compl rx_alloc tx_alloc
                  = (Inr l, ep1)"
    and svc0: "afk_epic_find_service ep ch = Some si"
    and mx: "MAX_PENDING_CMDS h \<le> 256"
    and rep: "sizeof_epic_cmd h \<le> length reply"
    and nz: "l_rxbuf l \<noteq> 0 \<and> l_txbuf l \<noteq> 0 \<and> output_len \<noteq> 0 \<and> payload \<noteq> []"
    and tmo: "wait_ret \<le> 0"
  shows
    "(let handler = (\<lambda>e. afk_recv_handle_reply h e ch (l_tag l) reply);
          early = afk_send_command h ep si type payload output_len compl rx_alloc tx_alloc
                    handler wait_ret;
          late = afk_send_command h ep si type payload output_len compl rx_alloc tx_alloc
                    (\<lambda>e. e) wait_ret;
          slot = cmds (services (snd late) si) (l_idx l)
      in (\<exists>rc out. fst early = Inr (rc, out)) \<and>
         dma_frees (snd early) = dma_frees ep @ [l_txbuf l, l_rxbuf l] \<and>
         released (services (snd early) si) = released (services ep si) @ [l_idx l] \<and>
         \<not> cmd_map (services (snd early) si) (l_idx l) \<and>
         fst late = Inl ETIMEDOUT \<and>
         completion slot = None \<and> free_on_ack slot \<and> \<not> cmd_done slot \<and>
         dma_frees (snd late) = dma_frees ep \<and>
         released (services (snd late) si) = released (services ep si) \<and>
         cmd_map (services (snd late) si) (l_idx l) \<and>
         dma_frees (handler (snd late)) = dma_frees ep @ [l_rxbuf l, l_txbuf l] \<and>
         released (services (handler (snd late)) si) = released (services ep si) @ [l_idx l] \<and>
         \<not> cmd_map (services (handler (snd late)) si) (l_idx l) \<and>
         completed (handler (snd late)) = completed ep)"
proof -
  note s = afk_send_command_submit_Inr [OF sub]
  from svc0 have svc: "afk_epic_find_service ep1 ch = Some si"
    by (simp add: s(9))
  let ?i = "l_idx l"
  from s(1) mx have i: "l_tag l mod 256 = ?i"
    using s(2) by simp
  have c: "cmd_done (cmds (services ep1 si) ?i) = False"
    "tag (cmds (services ep1 si) ?i) = l_tag l"
    "free_on_ack (cmds (services ep1 si) ?i) = False"
    "completion (cmds (services ep1 si) ?i) = Some compl"
    "rxbuf (cmds (services ep1 si) ?i) = l_rxbuf l"
    "txbuf (cmds (services ep1 si) ?i) = l_txbuf l"
    "rxlen (cmds (services ep1 si) ?i) = output_len"
    "txlen (cmds (services ep1 si) ?i) = length payload"
    by (simp_all add: s(3))
  let ?h = "\<lambda>e. afk_recv_handle_reply h e ch (l_tag l) reply"
  let ?rc = "u32 (le_val (take (snd (cmd_retcode h)) (drop (fst (cmd_retcode h)) reply)))"
  have h1: "?h ep1 = complete (Some compl)
      (upd_service si (upd_cmd ?i (\<lambda>c. c\<lparr>cmd_done := True, retcode := ?rc\<rparr>)) ep1)"
    using svc rep s(1) c
    by (simp add: afk_recv_handle_reply_def Let_def i upd_service_def upd_cmd_def)
  have d1: "cmd_done (cmds (services (?h ep1) si) ?i)"
    unfolding h1 by (simp add: complete_def upd_service_def upd_cmd_def)
  have early: "afk_send_command h ep si type payload output_len compl rx_alloc tx_alloc
                 ?h wait_ret =
     (Inr (retcode (cmds (services (?h ep1) si) ?i), load_bytes (l_rxbuf l) output_len (mem (?h ep1))),
      dma_free_coherent (l_rxbuf l) (dma_free_coherent (l_txbuf l)
        (upd_service si (bitmap_release_region ?i) (?h ep1))))"
    using d1 by (simp add: afk_send_command_def sub afk_send_command_wakeup_def Let_def)
  have e1: "\<exists>rc out. fst (afk_send_command h ep si type payload output_len compl rx_alloc
      tx_alloc ?h wait_ret) = Inr (rc, out)"
    unfolding early by simp
  have e2: "dma_frees (snd (afk_send_command h ep si type payload output_len compl rx_alloc
      tx_alloc ?h wait_ret)) = dma_frees ep @ [l_txbuf l, l_rxbuf l]"
    unfolding early h1
    by (simp add: dma_free_coherent_def upd_service_def complete_def s(6))
  have e3: "released (services (snd (afk_send_command h ep si type payload output_len compl
      rx_alloc tx_alloc ?h wait_ret)) si) = released (services ep si) @ [?i]"
    "\<not> cmd_map (services (snd (afk_send_command h ep si type payload output_len compl
      rx_alloc tx_alloc ?h wait_ret)) si) ?i"
    unfolding early h1
    by (simp_all add: dma_free_coherent_def upd_service_def upd_cmd_def complete_def
        bitmap_release_region_def s(5))
  let ?ep2 = "upd_service si
      (upd_cmd ?i (\<lambda>c. c\<lparr>completion := None, free_on_ack := True\<rparr>)) ep1"
  have late: "afk_send_command h ep si type payload output_len compl rx_alloc tx_alloc
                 (\<lambda>e. e) wait_ret = (Inl ETIMEDOUT, ?ep2)"
    using tmo c(1) by (simp add: afk_send_command_def sub afk_send_command_wakeup_def)
  have f2: "afk_epic_find_service ?ep2 ch = Some si"
    using svc by (simp add: find_service_upd_cmd)
  have l1: "completion (cmds (services ?ep2 si) ?i) = None"
    "free_on_ack (cmds (services ?ep2 si) ?i)"
    "\<not> cmd_done (cmds (services ?ep2 si) ?i)"
    "dma_frees ?ep2 = dma_frees ep"
    "released (services ?ep2 si) = released (services ep si)"
    "cmd_map (services ?ep2 si) ?i"
    using c s(4) by (simp_all add: upd_service_def upd_cmd_def s(5,6))
  have h2: "?h ?ep2 =
     dma_free_coherent (l_txbuf l) (dma_free_coherent (l_rxbuf l)
       (upd_service si (bitmap_release_region ?i)
          (upd_service si (upd_cmd ?i (\<lambda>c. c\<lparr>cmd_done := True, retcode := ?rc\<rparr>)) ?ep2)))"
    using f2 rep s(1) c nz
    by (simp add: afk_recv_handle_reply_def Let_def i upd_service_def upd_cmd_def complete_def)
  have l2: "dma_frees (?h ?ep2) = dma_frees ep @ [l_rxbuf l, l_txbuf l]"
    "released (services (?h ?ep2) si) = released (services ep si) @ [?i]"
    "\<not> cmd_map (services (?h ?ep2) si) ?i"
    "completed (?h ?ep2) = completed ep"
    unfolding h2
    by (simp_all add: dma_free_coherent_def upd_service_def upd_cmd_def
        bitmap_release_region_def s(5,6,7))
  show ?thesis
    unfolding Let_def using e1 e2 e3 l1 l2 unfolding late by simp
qed



theorem afk_send_command_timeout_race_witness:
  "fst (afk_send_command_submit afk_h_example ep_service 0 0xc0 (replicate 30 7) 64 0x30000
          (Some (0x40000, 0xb0000)) (Some (0x41000, 0xb1000)))
     = Inr \<lparr>l_idx = 1, l_tag = 0x0201, l_rxbuf = 0x40000, l_txbuf = 0x41000\<rparr> \<and>
   afk_epic_find_service ep_service 5 = Some 0 \<and>
   MAX_PENDING_CMDS afk_h_example \<le> 256 \<and>
   sizeof_epic_cmd afk_h_example \<le> length (replicate 30 (0::byte)) \<and>
   (\<exists>rc out.
      fst (afk_send_command afk_h_example ep_service 0 0xc0 (replicate 30 7) 64 0x30000
             (Some (0x40000, 0xb0000)) (Some (0x41000, 0xb1000))
             (\<lambda>e. afk_recv_handle_reply afk_h_example e 5 0x0201 (replicate 30 0)) 0)
        = Inr (rc, out)) \<and>
   dma_frees (snd (afk_send_command afk_h_example ep_service 0 0xc0 (replicate 30 7) 64 0x30000
             (Some (0x40000, 0xb0000)) (Some (0x41000, 0xb1000))
             (\<lambda>e. afk_recv_handle_reply afk_h_example e 5 0x0201 (replicate 30 0)) 0))
     = [0x41000, 0x40000] \<and>
   fst (afk_send_command afk_h_example ep_service 0 0xc0 (replicate 30 7) 64 0x30000
          (Some (0x40000, 0xb0000)) (Some (0x41000, 0xb1000)) (\<lambda>e. e) 0)
     = Inl ETIMEDOUT \<and>
   dma_frees (snd (afk_send_command afk_h_example ep_service 0 0xc0 (replicate 30 7) 64 0x30000
          (Some (0x40000, 0xb0000)) (Some (0x41000, 0xb1000)) (\<lambda>e. e) 0)) = [] \<and>
   dma_frees (afk_recv_handle_reply afk_h_example
        (snd (afk_send_command afk_h_example ep_service 0 0xc0 (replicate 30 7) 64 0x30000
                (Some (0x40000, 0xb0000)) (Some (0x41000, 0xb1000)) (\<lambda>e. e) 0))
        5 0x0201 (replicate 30 0))
     = [0x40000, 0x41000]"
proof -
  let ?sub = "afk_send_command_submit afk_h_example ep_service 0 0xc0 (replicate 30 7) 64 0x30000
          (Some (0x40000, 0xb0000)) (Some (0x41000, 0xb1000))"
  let ?l = "\<lparr>l_idx = 1, l_tag = 0x0201, l_rxbuf = 0x40000, l_txbuf = 0x41000\<rparr>"
  have b: "bitmap_find_free_region (cmd_map service_ch5) 8 = Some 1"
    by (simp add: bitmap_find_free_region_def service_ch5_def service_zero_def upt_rec)
  have f: "afk_epic_find_service ep_service 5 = Some 0"
    by (simp add: afk_epic_find_service_def ep_service_def service_ch5_def service_zero_def)
  have t: "u16 ((cmd_tag service_ch5 mod 256) * 256) OR (1 mod 256) = 0x0201"
    "u16 ((cmd_tag service_ch5 mod 256) * 256) OR Suc 0 = 0x0201"
    by (simp_all add: service_ch5_def service_zero_def u16_def)
  have e: "services ep_service 0 = service_ch5" "MAX_PENDING_CMDS afk_h_example = 8"
    "sizeof_epic_cmd afk_h_example = 30"
    by (simp_all add: ep_service_def afk_h_example_def)
  have p: "afk_send_epic_layout afk_h_example
             (ep_service\<lparr>mem := store_bytes 0x41000 (replicate 30 7) (mem ep_service)\<rparr>) 30
           = Inr (0, None, 16)"
    using ep_ring_rptr [of 0 0] ep_ring_wptr [of 0 0]
    by (simp add: afk_send_epic_layout_def afk_rb_get_rptr_def afk_rb_get_wptr_def ep_service_def
        get_le_store_disjoint ring_tx_def total_size_def total_epic_size_def usize_def u32_def
        afk_h_example_def sizeof_afk_qe_def afk_send_epic_place_def)
  have s: "fst ?sub = Inr ?l"
    using afk_send_command_submit_ok [of ep_service 0 afk_h_example 1 "0x41000" "replicate 30 7"
        "(0, None, 16)" "0xc0" 64 "0x30000" "0x40000" "0xb0000" "0xb1000"] b p
    by (simp add: e t)
  then have sub: "?sub = (Inr ?l, snd ?sub)"
    by (simp add: prod_eq_iff)
  have m: "MAX_PENDING_CMDS afk_h_example \<le> 256"
    "sizeof_epic_cmd afk_h_example \<le> length (replicate 30 (0::byte))"
    by (simp_all add: afk_h_example_def)
  have z: "l_rxbuf ?l \<noteq> 0 \<and> l_txbuf ?l \<noteq> 0 \<and> (64::nat) \<noteq> 0 \<and> replicate 30 (7::byte) \<noteq> []"
    by simp
  have d: "dma_frees ep_service = []" "completed ep_service = []"
    by (simp_all add: ep_service_def ep_ring_def ep_staged_def ep_new_def)
  from afk_send_command_timeout_race [OF sub f m z, where wait_ret = 0] s f m d
  show ?thesis
    by (simp add: Let_def)
qed

end
